theory Spec2Isabelle
  imports Complex_Main "HOL-Library.Log_Nat"
begin

section \<open>Modelling conventions\<close>

text \<open>
  TypeScript \<open>number\<close> values are IEEE doubles. The damage computation, the
  allocation of the theme counts and the scaling of the stats of a spawned unit are
  modelled in double precision (next section): \<open>fl\<close> rounds a real to the nearest
  double and \<open>fadd\<close>, \<open>fsub\<close>, \<open>fmul\<close> and \<open>fdiv\<close> are the four operations
  of the source. A real of the model stands for the double nearest to it, so a decimal
  of a table such as \<open>0.7\<close> is read as the double that the literal denotes.

  The wave scaling (\<open>getWaveScaling\<close>) is kept over the exact reals, since
  \<open>Math.log\<close> and \<open>Math.pow\<close> have no exact double semantics; the statements read its
  count and its interval through \<open>Math.floor\<close> and \<open>Math.round\<close>, and its
  multipliers enter the doubles through \<open>fmul\<close>.

  Counters and counts, which the code keeps integral, are \<open>int\<close>. \<open>Math.floor\<close> is
  \<open>\<lfloor>_\<rfloor>\<close>, \<open>Math.ceil\<close> is \<open>\<lceil>_\<rceil>\<close> and \<open>Math.round\<close> (round half
  up) is \<open>\<lfloor>x + 1/2\<rfloor>\<close>. The wave counter starts at 0 and is only incremented, so
  the remainder \<open>%\<close> is only taken of non-negative numbers, where it agrees with
  \<open>mod\<close>; \<open>Math.floor(a / b)\<close> on integers is \<open>div\<close>.
\<close>

section \<open>Double precision\<close>

text \<open>Rounding to the nearest integer, ties to the even one.\<close>

definition rne :: "real \<Rightarrow> int" where
  "rne x = (let f = \<lfloor>x\<rfloor>; d = x - of_int f
            in if d < 1 / 2 then f else if 1 / 2 < d then f + 1
               else if even f then f else f + 1)"

text \<open>The binary exponent of a positive real: the \<open>e\<close> with
  \<open>2 ^ e \<le> x < 2 ^ (e + 1)\<close> (lemma \<open>expo_bounds\<close>), computed from the bit length of
  the integer part of \<open>x\<close> or of \<open>1 / x\<close>.\<close>

definition expo :: "real \<Rightarrow> int" where
  "expo x = (if 1 \<le> x then int (floorlog 2 (nat \<lfloor>x\<rfloor>)) - 1
             else - int (floorlog 2 (nat (\<lceil>1 / x\<rceil> - 1))))"

text \<open>The double nearest to a real: 53 significant bits, round to nearest, ties to
  even. The exponent is not bounded, so overflow, subnormal numbers and \<open>NaN\<close> are not
  modelled; the numbers of the game lie far inside the normal range.\<close>

definition fl :: "real \<Rightarrow> real" where
  "fl x = (if x = 0 then 0
           else let u = 2 powi (expo \<bar>x\<bar> - 52) in of_int (rne (x / u)) * u)"

text \<open>\<open>a + b\<close>, \<open>a - b\<close>, \<open>a * b\<close> and \<open>a / b\<close> on doubles: the exact result,
  rounded. The operands are read as doubles; a double is read unchanged
  (lemma \<open>fl_idem\<close>). The source divides by 2 and by a ratio total that it has tested
  to be positive, so the quotient by 0 is never taken.\<close>

definition fadd :: "real \<Rightarrow> real \<Rightarrow> real" where
  "fadd a b = fl (fl a + fl b)"

definition fsub :: "real \<Rightarrow> real \<Rightarrow> real" where
  "fsub a b = fl (fl a - fl b)"

definition fmul :: "real \<Rightarrow> real \<Rightarrow> real" where
  "fmul a b = fl (fl a * fl b)"

definition fdiv :: "real \<Rightarrow> real \<Rightarrow> real" where
  "fdiv a b = fl (fl a / fl b)"

section \<open>Damage model (\<open>src/config/damage.config.ts\<close>)\<close>

datatype DamageType = FIRE | PHYSICAL | ICE | LIGHT | PIERCE | VOID

datatype EnemyType =
  SWARM | BEAST | ARMORED | UNDEAD | DEMON | ELEMENTAL | FLYING | TANK | BOSS | DRAGON
  | AQUATIC | HUMANOID | CONSTRUCT

record TowerDamageProfile =
  primary :: DamageType
  secondary :: "DamageType option"
  primaryRatio :: real

definition TOWER_DAMAGE_PROFILES :: "(string \<times> TowerDamageProfile) list" where
  "TOWER_DAMAGE_PROFILES =
    [(''ember_watch'', \<lparr>primary = FIRE, secondary = None, primaryRatio = 1.0\<rparr>),
     (''rockbound_bastion'', \<lparr>primary = PHYSICAL, secondary = None, primaryRatio = 1.0\<rparr>),
     (''frostcoil_tower'', \<lparr>primary = ICE, secondary = None, primaryRatio = 1.0\<rparr>),
     (''sunflare_cannon'', \<lparr>primary = LIGHT, secondary = Some FIRE, primaryRatio = 0.7\<rparr>),
     (''ironspike_launcher'', \<lparr>primary = PIERCE, secondary = Some PHYSICAL, primaryRatio = 0.75\<rparr>),
     (''pyrehold'', \<lparr>primary = FIRE, secondary = Some PHYSICAL, primaryRatio = 0.65\<rparr>),
     (''void_obelisk'', \<lparr>primary = VOID, secondary = None, primaryRatio = 1.0\<rparr>),
     (''stone_mortar'', \<lparr>primary = PHYSICAL, secondary = Some PIERCE, primaryRatio = 0.8\<rparr>),
     (''dread_pyre'', \<lparr>primary = VOID, secondary = Some FIRE, primaryRatio = 0.6\<rparr>)]"

text \<open>One row of the resistance table: the multipliers in the order
  fire, physical, ice, light, pierce, void.\<close>

record DamageMultipliers =
  m_fire :: real
  m_physical :: real
  m_ice :: real
  m_light :: real
  m_pierce :: real
  m_void :: real

text \<open>\<open>multipliers[damageType]\<close>\<close>

fun at_type :: "DamageMultipliers \<Rightarrow> DamageType \<Rightarrow> real" where
  "at_type m FIRE = m_fire m"
| "at_type m PHYSICAL = m_physical m"
| "at_type m ICE = m_ice m"
| "at_type m LIGHT = m_light m"
| "at_type m PIERCE = m_pierce m"
| "at_type m VOID = m_void m"

definition row :: "real \<Rightarrow> real \<Rightarrow> real \<Rightarrow> real \<Rightarrow> real \<Rightarrow> real \<Rightarrow> DamageMultipliers" where
  "row f p i l pc v =
     \<lparr>m_fire = f, m_physical = p, m_ice = i, m_light = l, m_pierce = pc, m_void = v\<rparr>"

text \<open>The table is a \<open>Record<EnemyType, DamageMultipliers>\<close>; the lookup is kept
  partial because the code guards it (\<open>if (!multipliers) continue\<close>).\<close>

fun ENEMY_DAMAGE_MULTIPLIERS :: "EnemyType \<Rightarrow> DamageMultipliers option" where
  "ENEMY_DAMAGE_MULTIPLIERS SWARM = Some (row 1.6 1.2 1.4 1.3 0.7 0.9)"
| "ENEMY_DAMAGE_MULTIPLIERS BEAST = Some (row 1.5 1.0 1.2 1.0 1.3 0.8)"
| "ENEMY_DAMAGE_MULTIPLIERS ARMORED = Some (row 1.2 0.5 1.0 1.0 1.8 1.0)"
| "ENEMY_DAMAGE_MULTIPLIERS UNDEAD = Some (row 1.5 0.7 0.5 1.8 0.6 0.5)"
| "ENEMY_DAMAGE_MULTIPLIERS DEMON = Some (row 0.5 1.0 1.5 1.8 1.1 0.7)"
| "ENEMY_DAMAGE_MULTIPLIERS ELEMENTAL = Some (row 0.8 0.6 0.8 1.3 0.4 1.5)"
| "ENEMY_DAMAGE_MULTIPLIERS FLYING = Some (row 1.3 0.8 1.4 1.0 1.6 1.0)"
| "ENEMY_DAMAGE_MULTIPLIERS TANK = Some (row 1.1 0.6 0.9 1.0 1.4 1.2)"
| "ENEMY_DAMAGE_MULTIPLIERS BOSS = Some (row 1.1 1.1 1.1 1.2 1.2 1.5)"
| "ENEMY_DAMAGE_MULTIPLIERS DRAGON = Some (row 0.3 0.7 1.6 1.0 1.4 1.2)"
| "ENEMY_DAMAGE_MULTIPLIERS AQUATIC = Some (row 0.6 1.0 1.7 1.4 1.2 0.9)"
| "ENEMY_DAMAGE_MULTIPLIERS HUMANOID = Some (row 1.2 0.9 1.1 1.3 1.2 0.7)"
| "ENEMY_DAMAGE_MULTIPLIERS CONSTRUCT = Some (row 0.6 1.8 0.7 0.5 0.8 0.4)"

text \<open>The weighted multiplier of one enemy type (the body shared by both loops of
  \<open>calculateEffectiveDamage\<close>): the primary share, plus the secondary share when the
  profile has a secondary type.\<close>

definition typeMultiplier :: "TowerDamageProfile \<Rightarrow> DamageMultipliers \<Rightarrow> real" where
  "typeMultiplier damageProfile multipliers =
     (let t = fmul (at_type multipliers (primary damageProfile)) (primaryRatio damageProfile)
      in case secondary damageProfile of
           None \<Rightarrow> t
         | Some sec \<Rightarrow>
             fadd t (fmul (at_type multipliers sec) (fsub 1 (primaryRatio damageProfile))))"

text \<open>First loop: \<open>bestMultiplier\<close>, threaded through the enemy types.\<close>

fun bestLoop :: "TowerDamageProfile \<Rightarrow> EnemyType list \<Rightarrow> real \<Rightarrow> real" where
  "bestLoop damageProfile [] bestMultiplier = bestMultiplier"
| "bestLoop damageProfile (enemyType # rest) bestMultiplier =
     (case ENEMY_DAMAGE_MULTIPLIERS enemyType of
        None \<Rightarrow> bestLoop damageProfile rest bestMultiplier
      | Some multipliers \<Rightarrow>
          (let t = typeMultiplier damageProfile multipliers
           in bestLoop damageProfile rest (if t > bestMultiplier then t else bestMultiplier)))"

text \<open>Second loop: \<open>worstMultiplier\<close>.\<close>

fun worstLoop :: "TowerDamageProfile \<Rightarrow> EnemyType list \<Rightarrow> real \<Rightarrow> real" where
  "worstLoop damageProfile [] worstMultiplier = worstMultiplier"
| "worstLoop damageProfile (enemyType # rest) worstMultiplier =
     (case ENEMY_DAMAGE_MULTIPLIERS enemyType of
        None \<Rightarrow> worstLoop damageProfile rest worstMultiplier
      | Some multipliers \<Rightarrow>
          (let t = typeMultiplier damageProfile multipliers
           in worstLoop damageProfile rest (if t < worstMultiplier then t else worstMultiplier)))"

text \<open>\<open>finalMultiplier\<close>: both loops start from \<open>1.0\<close>.\<close>

definition finalMultiplier :: "TowerDamageProfile \<Rightarrow> EnemyType list \<Rightarrow> real" where
  "finalMultiplier damageProfile enemyTypes =
     (let bestMultiplier = bestLoop damageProfile enemyTypes 1.0;
          worstMultiplier = worstLoop damageProfile enemyTypes 1.0
      in if length enemyTypes > 1 then fdiv (fadd bestMultiplier worstMultiplier) 2
         else bestMultiplier)"

definition calculateEffectiveDamage :: "real \<Rightarrow> string \<Rightarrow> EnemyType list \<Rightarrow> real" where
  "calculateEffectiveDamage baseDamage towerId enemyTypes =
     (case map_of TOWER_DAMAGE_PROFILES towerId of
        None \<Rightarrow> baseDamage
      | Some damageProfile \<Rightarrow>
          of_int \<lfloor>fmul baseDamage (finalMultiplier damageProfile enemyTypes)\<rfloor>)"

text \<open>The multiplier that the two loops compute for a category tag (\<open>typeMultiplier\<close>
  in the source), in doubles.\<close>

definition tagMultiplier :: "TowerDamageProfile \<Rightarrow> EnemyType \<Rightarrow> real" where
  "tagMultiplier damageProfile tag =
     (case ENEMY_DAMAGE_MULTIPLIERS tag of
        None \<Rightarrow> 1
      | Some multipliers \<Rightarrow> typeMultiplier damageProfile multipliers)"

text \<open>The blended multiplier of a category tag for a profile, as the claims name it:
  \<open>resist[tag][primary] * r + resist[tag][secondary] * (1 - r)\<close>, over the decimals
  of the table.\<close>

definition blended :: "TowerDamageProfile \<Rightarrow> EnemyType \<Rightarrow> real" where
  "blended damageProfile tag =
     (case ENEMY_DAMAGE_MULTIPLIERS tag of
        None \<Rightarrow> 1
      | Some multipliers \<Rightarrow>
          (case secondary damageProfile of
             None \<Rightarrow> at_type multipliers (primary damageProfile) * primaryRatio damageProfile
           | Some sec \<Rightarrow>
               at_type multipliers (primary damageProfile) * primaryRatio damageProfile
                 + at_type multipliers sec * (1 - primaryRatio damageProfile)))"

section \<open>Enemy catalog (\<open>src/config/enemies.config.ts\<close>)\<close>

datatype AbilityType = Ranged | Aoe | Heal | Spawn | Shield

record Ability =
  ability_type :: AbilityType
  ability_range :: "real option"
  cooldown :: "real option"

text \<open>\<open>EnemyConfig\<close>. The field \<open>id\<close> is named \<open>enemy_id\<close> and
  \<open>animations.walk\<close> is \<open>animations_walk\<close>; the optional \<open>attack\<close> and \<open>death\<close>
  animation keys are set by no archetype and are left out.\<close>

record EnemyConfig =
  enemy_id :: string
  name :: string
  spriteKey :: string
  health :: real
  speed :: real
  damage :: real
  reward :: real
  scale :: "real option"
  enemyTypes :: "EnemyType list"
  unlockWave :: int
  tags :: "string list"
  animations_walk :: string
  abilities :: "Ability option"

definition mkEnemy ::
  "string \<Rightarrow> string \<Rightarrow> string \<Rightarrow> real \<Rightarrow> real \<Rightarrow> real \<Rightarrow> real \<Rightarrow> real \<Rightarrow> EnemyType list \<Rightarrow> int
     \<Rightarrow> string list \<Rightarrow> string \<Rightarrow> Ability option \<Rightarrow> string \<times> EnemyConfig" where
  "mkEnemy i n sk h sp d r sc ts u tg w ab =
     (i, \<lparr>enemy_id = i, name = n, spriteKey = sk, health = h, speed = sp, damage = d,
          reward = r, scale = Some sc, enemyTypes = ts, unlockWave = u, tags = tg,
          animations_walk = w, abilities = ab\<rparr>)"

text \<open>\<open>ENEMY_CONFIGS\<close> in declaration order, which is the order of
  \<open>Object.keys\<close> and \<open>Object.values\<close>.\<close>

definition ENEMY_CONFIGS :: "(string \<times> EnemyConfig) list" where
  "ENEMY_CONFIGS =
    [mkEnemy ''goblin'' ''Torch Goblin'' ''torch_goblin'' 40 45 1 8 0.5 [SWARM] 1
       [''light'', ''swarm''] ''torch_goblin_walk'' None,
     mkEnemy ''tnt_runner'' ''TNT Runner'' ''tnt_goblin'' 25 65 1 6 0.5 [SWARM] 1
       [''fast'', ''swarm'', ''light''] ''tnt_goblin_walk'' None,
     mkEnemy ''barrel_bomber'' ''Shadow Goblin'' ''torch_goblin_purple'' 35 55 1 7 0.5 [SWARM] 2
       [''shadow'', ''swarm''] ''torch_goblin_purple_walk'' None,
     mkEnemy ''footman'' ''Red Footman'' ''pawn_red'' 30 48 1 7 0.5 [HUMANOID, ARMORED] 2
       [''light'', ''swarm''] ''pawn_red_walk'' None,
     mkEnemy ''goblin_blue'' ''Frost Goblin'' ''torch_goblin_blue'' 45 42 1 9 0.5 [SWARM] 3
       [''light'', ''swarm'', ''frost''] ''torch_goblin_blue_walk'' None,
     mkEnemy ''goblin_yellow'' ''Desert Goblin'' ''torch_goblin_yellow'' 50 40 1 10 0.5 [SWARM] 4
       [''light'', ''swarm''] ''torch_goblin_yellow_walk'' None,
     mkEnemy ''tnt_runner_blue'' ''Winged Runner'' ''tnt_goblin_blue'' 30 62 1 7 0.5
       [SWARM, FLYING] 3 [''fast'', ''swarm'', ''flying''] ''tnt_goblin_blue_walk'' None,
     mkEnemy ''barrel_bomber_purple'' ''Void Runner'' ''tnt_goblin_purple'' 45 50 1 10 0.5
       [SWARM, UNDEAD] 4 [''shadow'', ''undead''] ''tnt_goblin_purple_walk'' None,
     mkEnemy ''archer'' ''Red Archer'' ''archer_red'' 55 35 1 12 0.5 [HUMANOID, ARMORED] 3
       [''ranged'', ''light''] ''archer_red_walk''
       (Some \<lparr>ability_type = Ranged, ability_range = Some 150, cooldown = Some 2000\<rparr>),
     mkEnemy ''warrior'' ''Red Warrior'' ''warrior_red'' 70 38 1 14 0.5 [ARMORED, HUMANOID] 3
       [''armored''] ''warrior_red_walk'' None,
     mkEnemy ''rogue'' ''Purple Rogue'' ''pawn_purple'' 45 58 2 15 0.5 [HUMANOID, UNDEAD] 5
       [''fast'', ''light''] ''pawn_purple_walk'' None,
     mkEnemy ''dark_knight'' ''Dark Knight'' ''warrior_purple'' 80 30 2 16 0.5 [UNDEAD, ARMORED] 5
       [''armored'', ''undead''] ''warrior_purple_walk'' None,
     mkEnemy ''berserker'' ''Yellow Berserker'' ''warrior_yellow'' 100 28 2 18 0.55 [BEAST, TANK] 5
       [''armored'', ''beast''] ''warrior_yellow_walk'' None,
     mkEnemy ''iron_guard'' ''Iron Golem'' ''warrior_blue'' 150 20 2 22 0.55 [CONSTRUCT, TANK] 8
       [''construct'', ''shield''] ''warrior_blue_walk''
       (Some \<lparr>ability_type = Shield, ability_range = None, cooldown = Some 5000\<rparr>),
     mkEnemy ''elite_scout'' ''Elite Scout'' ''pawn_yellow'' 90 40 2 18 0.5 [ARMORED, HUMANOID] 8
       [''fast'', ''armored''] ''pawn_yellow_walk'' None,
     mkEnemy ''shadow_archer'' ''Shadow Archer'' ''archer_purple'' 80 28 2 25 0.5
       [ELEMENTAL, UNDEAD] 10 [''magic'', ''ranged''] ''archer_purple_walk''
       (Some \<lparr>ability_type = Aoe, ability_range = Some 120, cooldown = Some 3000\<rparr>),
     mkEnemy ''frost_archer'' ''Frost Archer'' ''archer_blue'' 75 32 2 20 0.5 [AQUATIC] 10
       [''ranged'', ''frost''] ''archer_blue_walk''
       (Some \<lparr>ability_type = Ranged, ability_range = Some 180, cooldown = Some 2500\<rparr>),
     mkEnemy ''warlord'' ''Warlord'' ''warrior_red'' 400 18 5 60 0.85 [BOSS, TANK] 10
       [''boss'', ''armored''] ''warrior_red_walk'' None,
     mkEnemy ''dark_lord'' ''Dark Lord'' ''warrior_purple'' 600 22 8 100 1.0
       [BOSS, DEMON, UNDEAD] 15 [''boss'', ''demon'', ''undead''] ''warrior_purple_walk'' None]"

section \<open>Wave themes (\<open>src/config/waves.config.ts\<close>)\<close>

text \<open>\<open>WaveTheme\<close>; its field \<open>id\<close> is named \<open>theme_id\<close>.\<close>

record WaveTheme =
  theme_id :: string
  label :: string
  focusTypes :: "EnemyType list"
  supportTypes :: "EnemyType list"
  wildcardTypes :: "EnemyType list"
  focusRatio :: real
  supportRatio :: real
  wildcardRatio :: real
  segmentCount :: int
  spawnIntervalMultiplier :: real

definition mkTheme ::
  "string \<Rightarrow> string \<Rightarrow> EnemyType list \<Rightarrow> EnemyType list \<Rightarrow> EnemyType list \<Rightarrow> real \<Rightarrow> real \<Rightarrow> real
     \<Rightarrow> int \<Rightarrow> real \<Rightarrow> WaveTheme" where
  "mkTheme i l ft st wt fr sr wr n m =
     \<lparr>theme_id = i, label = l, focusTypes = ft, supportTypes = st, wildcardTypes = wt,
      focusRatio = fr, supportRatio = sr, wildcardRatio = wr, segmentCount = n,
      spawnIntervalMultiplier = m\<rparr>"

definition EARLY_WAVE_THEMES :: "(int \<times> WaveTheme) list" where
  "EARLY_WAVE_THEMES =
    [(1, mkTheme ''intro_swarm'' ''Intro Swarm'' [SWARM] [HUMANOID] [] 0.85 0.15 0 1 1.05),
     (2, mkTheme ''swarm_mix'' ''Swarm Mix'' [SWARM] [ARMORED] [] 0.7 0.3 0 2 1.0),
     (3, mkTheme ''armored_check'' ''Armored Check'' [ARMORED] [SWARM] [] 0.6 0.4 0 2 1.0),
     (4, mkTheme ''flying_intro'' ''Flying Intro'' [FLYING] [SWARM] [] 0.55 0.45 0 2 0.95)]"

definition WAVE_THEME_CYCLE :: "WaveTheme list" where
  "WAVE_THEME_CYCLE =
    [mkTheme ''swarm_pressure'' ''Swarm Pressure'' [SWARM] [HUMANOID] [ARMORED] 0.6 0.2 0.2 3 0.92,
     mkTheme ''armored_push'' ''Armored Push'' [ARMORED] [HUMANOID] [TANK] 0.55 0.2 0.25 3 1.05,
     mkTheme ''flying_strike'' ''Flying Strike'' [FLYING] [SWARM] [ARMORED] 0.55 0.2 0.25 3 0.95,
     mkTheme ''undead_curse'' ''Undead Curse'' [UNDEAD] [ARMORED] [HUMANOID] 0.6 0.2 0.2 3 1.0,
     mkTheme ''beast_tank'' ''Beast Tank'' [BEAST, TANK] [ARMORED] [SWARM] 0.55 0.25 0.2 3 1.05,
     mkTheme ''construct_wall'' ''Construct Wall'' [CONSTRUCT] [TANK] [ARMORED] 0.55 0.25 0.2 3 1.1,
     mkTheme ''elemental_surge'' ''Elemental Surge'' [ELEMENTAL, AQUATIC] [UNDEAD] [HUMANOID]
       0.55 0.2 0.25 3 0.98,
     mkTheme ''mixed_check'' ''Mixed Check'' [SWARM, ARMORED, FLYING] [UNDEAD, TANK] [HUMANOID]
       0.5 0.25 0.25 4 1.0]"

definition BOSS_SUPPORT_THEME :: WaveTheme where
  "BOSS_SUPPORT_THEME =
     mkTheme ''boss_support'' ''Boss Support'' [TANK, ARMORED] [SWARM] [UNDEAD, HUMANOID]
       0.5 0.3 0.2 3 1.0"

section \<open>Randomness and the Phaser helpers\<close>

text \<open>
  The game draws random numbers through \<open>Math.random\<close> and Phaser's \<open>RND\<close>. The
  outcomes of the successive draws are an explicit supply \<open>g\<close>: \<open>g 0\<close> decides the
  next draw and the supply is shifted afterwards, so the theorems below hold for every
  sequence of outcomes. \<open>randomBelow n\<close> is \<open>Math.floor(Math.random() * n)\<close>, a
  number in \<open>{0..<n}\<close>.
\<close>

type_synonym rng = "nat \<Rightarrow> nat"

definition randomBelow :: "nat \<Rightarrow> rng \<Rightarrow> nat \<times> rng" where
  "randomBelow n g = (g 0 mod n, \<lambda>k. g (Suc k))"

text \<open>\<open>Phaser.Utils.Array.Shuffle\<close>, the library's Fisher-Yates loop
  \<open>for (i = length - 1; i > 0; i--) { j = floor(random() * (i + 1)); swap(i, j) }\<close>.\<close>

fun shuffleLoop :: "nat \<Rightarrow> 'a list \<Rightarrow> rng \<Rightarrow> 'a list \<times> rng" where
  "shuffleLoop 0 array g = (array, g)"
| "shuffleLoop (Suc n) array g =
     (let i = Suc n;
          (j, g1) = randomBelow (i + 1) g
      in shuffleLoop n (array[i := array ! j, j := array ! i]) g1)"

definition Shuffle :: "'a list \<Rightarrow> rng \<Rightarrow> 'a list \<times> rng" where
  "Shuffle array g = shuffleLoop (length array - 1) array g"

text \<open>\<open>Phaser.Math.RND.pick\<close>: the element at a random index. It is only called on a
  non-empty array.\<close>

definition pick :: "'a list \<Rightarrow> rng \<Rightarrow> 'a \<times> rng" where
  "pick array g = (let (k, g1) = randomBelow (length array) g in (array ! k, g1))"

text \<open>\<open>Phaser.Math.Between(lo, hi)\<close>: a random integer in \<open>{lo..hi}\<close>.\<close>

definition Between :: "int \<Rightarrow> int \<Rightarrow> rng \<Rightarrow> int \<times> rng" where
  "Between lo hi g = (let (k, g1) = randomBelow (nat (hi - lo + 1)) g in (lo + int k, g1))"

text \<open>\<open>Array.prototype.slice(0, end)\<close>; a negative \<open>end\<close> counts from the back.\<close>

definition slice0 :: "'a list \<Rightarrow> int \<Rightarrow> 'a list" where
  "slice0 xs e = (if e < 0 then take (nat (int (length xs) + e)) xs else take (nat e) xs)"

text \<open>\<open>Array.prototype.splice(idx, 0, v)\<close> for \<open>0 \<le> idx\<close>: insert \<open>v\<close> before
  index \<open>idx\<close>.\<close>

definition splice_insert :: "nat \<Rightarrow> 'a \<Rightarrow> 'a list \<Rightarrow> 'a list" where
  "splice_insert idx v xs = take idx xs @ [v] @ drop idx xs"

section \<open>Wave system state (\<open>WaveSystemV2\<close>)\<close>

record Scaling =
  enemyCount :: int
  healthMultiplier :: real
  speedMultiplier :: real
  rewardMultiplier :: real
  spawnInterval :: int

text \<open>\<open>EnemyUnit\<close>: the unit keeps the configuration it was constructed with and its
  spawn position. Movement, health and death of a unit are not part of this model.\<close>

record EnemyUnit =
  config :: EnemyConfig
  pos_x :: real
  pos_y :: real

text \<open>The two closures that \<open>startNextWave\<close> hands to the scene clock: the spawn
  callback \<open>() => { this.spawnEnemy(enemyType, scaling); this.enemiesSpawnedThisWave++ }\<close>
  and the completion marker \<open>() => { this.isSpawning = false }\<close>.\<close>

datatype Callback = SpawnCallback string Scaling | SpawningFinishedCallback

text \<open>\<open>Phaser.Time.TimerEvent\<close>; \<open>destroy()\<close> clears the callback.\<close>

record TimerEvent =
  delay :: real
  elapsed :: real
  paused :: bool
  hasDispatched :: bool
  callback :: "Callback option"

datatype Event =
  waveStarted int
  | enemySpawned EnemyUnit
  | enemyReachedBase EnemyUnit
  | waveComplete int int

text \<open>The scene as far as the wave system uses it: the log of emitted events and the
  timers of \<open>scene.time\<close>. A timer is referred to by its index in \<open>clock\<close>.\<close>

record Scene =
  events :: "Event list"
  clock :: "TimerEvent list"

definition emit :: "Event \<Rightarrow> Scene \<Rightarrow> Scene" where
  "emit e sc = sc\<lparr>events := events sc @ [e]\<rparr>"

definition delayedCall :: "real \<Rightarrow> Callback \<Rightarrow> Scene \<Rightarrow> nat \<times> Scene" where
  "delayedCall d cb sc =
     (length (clock sc),
      sc\<lparr>clock := clock sc @
         [\<lparr>delay = d, elapsed = 0, paused = False, hasDispatched = False,
           callback = Some cb\<rparr>]\<rparr>)"

text \<open>
  The instance state. \<open>catalog\<close> is the module object \<open>ENEMY_CONFIGS\<close> (kept in the
  state so that a write to it would be visible), \<open>pathSystem\<close> is the first waypoint of
  the path, \<open>random\<close> the supply of random outcomes. The fields whose names clash with
  the fields of \<open>Scaling\<close> and \<open>EnemyConfig\<close> carry the prefix \<open>this_\<close>.
\<close>

record WaveSystemV2 =
  scene :: Scene
  pathSystem :: "real \<times> real"
  catalog :: "(string \<times> EnemyConfig) list"
  random :: rng
  enemies :: "EnemyUnit list"
  currentWave :: int
  isSpawning :: bool
  waveInProgress :: bool
  spawnTimers :: "nat list"
  enemiesSpawnedThisWave :: int
  this_enemyTypes :: "string list"
  this_rewardMultiplier :: real
  this_healthMultiplier :: real
  enemyCountMultiplier :: real
  this_speedMultiplier :: real

record WaveSystemV2Config =
  cfg_pathSystem :: "real \<times> real"
  cfg_rewardMultiplier :: "real option"
  cfg_healthMultiplier :: "real option"
  countMultiplier :: "real option"
  cfg_speedMultiplier :: "real option"

text \<open>\<open>x ?? d\<close>\<close>

definition orElse :: "'a option \<Rightarrow> 'a \<Rightarrow> 'a" where
  "orElse v d = (case v of None \<Rightarrow> d | Some a \<Rightarrow> a)"

text \<open>The constructor, given the scene and the random supply of the run.\<close>

definition new_WaveSystemV2 :: "Scene \<Rightarrow> rng \<Rightarrow> WaveSystemV2Config \<Rightarrow> WaveSystemV2" where
  "new_WaveSystemV2 sc g cfg =
     \<lparr>scene = sc, pathSystem = cfg_pathSystem cfg, catalog = ENEMY_CONFIGS, random = g,
      enemies = [], currentWave = 0, isSpawning = False, waveInProgress = False,
      spawnTimers = [], enemiesSpawnedThisWave = 0,
      this_enemyTypes = map fst ENEMY_CONFIGS,
      this_rewardMultiplier = orElse (cfg_rewardMultiplier cfg) 1.0,
      this_healthMultiplier = orElse (cfg_healthMultiplier cfg) 1.0,
      enemyCountMultiplier = orElse (countMultiplier cfg) 1.0,
      this_speedMultiplier = orElse (cfg_speedMultiplier cfg) 1.0\<rparr>"

section \<open>Pools, themes and scaling\<close>

text \<open>\<open>config.enemyTypes?.some(t => t === 'boss')\<close>\<close>

definition isBoss :: "EnemyConfig \<Rightarrow> bool" where
  "isBoss cfg = list_ex (\<lambda>t. t = BOSS) (enemyTypes cfg)"

definition getAvailableEnemyTypes :: "WaveSystemV2 \<Rightarrow> string list" where
  "getAvailableEnemyTypes this =
     (let wave = currentWave this;
          available = filter (\<lambda>enemyId.
             case map_of (catalog this) enemyId of
               None \<Rightarrow> False
             | Some cfg \<Rightarrow> unlockWave cfg \<le> wave \<and> \<not> isBoss cfg) (this_enemyTypes this)
      in if length available = 0 then [''goblin''] else available)"

definition getAvailableBossTypes :: "WaveSystemV2 \<Rightarrow> string list" where
  "getAvailableBossTypes this =
     (let wave = currentWave this
      in filter (\<lambda>enemyId.
             case map_of (catalog this) enemyId of
               None \<Rightarrow> False
             | Some cfg \<Rightarrow> unlockWave cfg \<le> wave \<and> isBoss cfg) (this_enemyTypes this))"

definition round_half_up :: "real \<Rightarrow> int" where
  "round_half_up v = \<lfloor>v + 1 / 2\<rfloor>"

definition getWaveScaling :: "WaveSystemV2 \<Rightarrow> WaveTheme option \<Rightarrow> Scaling" where
  "getWaveScaling this theme_opt =
     (let wave = currentWave this;
          baseCount = 5;
          enemyCount = \<lfloor>(baseCount + of_int wave * 1.5 + ln (of_int wave + 1) * 3)
                          * enemyCountMultiplier this\<rfloor>;
          healthMultiplier = (1 + (of_int wave - 1) * 0.15 + (of_int wave / 10) powr 1.5)
                          * this_healthMultiplier this;
          speedMultiplier = (1 + min (of_int wave * 0.04) 0.5) * this_speedMultiplier this;
          rewardGrowth = min 1.25 (0.95 + ln (of_int wave + 1) * 0.08);
          rewardMultiplier = rewardGrowth * this_rewardMultiplier this;
          spawnInterval = max 300 (800 - wave * 30);
          spawnInterval = (case theme_opt of
               None \<Rightarrow> spawnInterval
             | Some theme \<Rightarrow>
                 max 280 (round_half_up (of_int spawnInterval * spawnIntervalMultiplier theme)))
      in \<lparr>enemyCount = enemyCount, healthMultiplier = healthMultiplier,
          speedMultiplier = speedMultiplier, rewardMultiplier = rewardMultiplier,
          spawnInterval = spawnInterval\<rparr>)"

text \<open>A \<open>Set\<close> keeps insertion order and ignores a second \<open>add\<close>.\<close>

definition set_add :: "'a \<Rightarrow> 'a list \<Rightarrow> 'a list" where
  "set_add v xs = (if v \<in> set xs then xs else xs @ [v])"

definition getNewEnemyTypesForWave :: "WaveSystemV2 \<Rightarrow> EnemyType list" where
  "getNewEnemyTypesForWave this =
     fold (\<lambda>cfg types.
            if unlockWave cfg = currentWave this
            then fold (\<lambda>enemyType types. if enemyType \<noteq> BOSS then set_add enemyType types else types)
                   (enemyTypes cfg) types
            else types)
       (map snd (catalog this)) []"

definition getEnemyPoolByTypes :: "WaveSystemV2 \<Rightarrow> string list \<Rightarrow> EnemyType list \<Rightarrow> string list" where
  "getEnemyPoolByTypes this availableTypes types =
     (if length types = 0 then []
      else filter (\<lambda>enemyId.
             case map_of (catalog this) enemyId of
               None \<Rightarrow> False
             | Some cfg \<Rightarrow> list_ex (\<lambda>enemyType. enemyType \<in> set types) (enemyTypes cfg))
           availableTypes)"

definition strategicTypes :: "EnemyType list" where
  "strategicTypes = [FLYING, ARMORED, UNDEAD, CONSTRUCT, TANK, ELEMENTAL, AQUATIC, BEAST]"

definition getUnlockTheme :: "WaveSystemV2 \<Rightarrow> string list \<Rightarrow> WaveTheme option" where
  "getUnlockTheme this availableTypes =
     (let newlyUnlockedTypes = getNewEnemyTypesForWave this
      in if length newlyUnlockedTypes = 0 then None
         else let focusTypes = filter (\<lambda>t. t \<in> set strategicTypes) newlyUnlockedTypes
              in if length focusTypes = 0 then None
                 else if length (getEnemyPoolByTypes this availableTypes focusTypes) = 0 then None
                 else Some (mkTheme ''new_threat'' ''New Threat'' focusTypes
                              [SWARM, HUMANOID, ARMORED] [TANK] 0.65 0.25 0.1 3 1.0))"

definition getWaveTheme :: "WaveSystemV2 \<Rightarrow> string list \<Rightarrow> bool \<Rightarrow> WaveTheme" where
  "getWaveTheme this availableTypes isBossWave =
     (if isBossWave then BOSS_SUPPORT_THEME
      else case map_of EARLY_WAVE_THEMES (currentWave this) of
             Some earlyTheme \<Rightarrow> earlyTheme
           | None \<Rightarrow>
              (case getUnlockTheme this availableTypes of
                 Some unlockTheme \<Rightarrow> unlockTheme
               | None \<Rightarrow>
                  (let cycleIndex = max 0 (currentWave this - 5) mod int (length WAVE_THEME_CYCLE)
                   in WAVE_THEME_CYCLE ! nat cycleIndex)))"

definition getSegmentCount :: "int \<Rightarrow> int \<Rightarrow> int" where
  "getSegmentCount total' preferred =
     (let dynamic = total' div 8 + 1 in max 1 (min preferred (min 4 dynamic)))"

section \<open>Composition of a wave\<close>

record ThemeCounts =
  focusCount :: int
  supportCount :: int
  wildcardCount :: int

definition allocateThemeCounts :: "int \<Rightarrow> WaveTheme \<Rightarrow> ThemeCounts" where
  "allocateThemeCounts total' theme =
     (let ratioTotal = fadd (fadd (focusRatio theme) (supportRatio theme)) (wildcardRatio theme);
          focusRatio' = (if ratioTotal > 0 then fdiv (focusRatio theme) ratioTotal else 1);
          supportRatio' = (if ratioTotal > 0 then fdiv (supportRatio theme) ratioTotal else 0);
          wildcardRatio' = (if ratioTotal > 0 then fdiv (wildcardRatio theme) ratioTotal else 0);
          focusCount0 = \<lfloor>fmul (of_int total') focusRatio'\<rfloor>;
          supportCount0 = \<lfloor>fmul (of_int total') supportRatio'\<rfloor>;
          wildcardCount0 = total' - focusCount0 - supportCount0;
          (focusCount1, wildcardCount1) =
             (if total' > 0 \<and> focusCount0 = 0 then (1, total' - 1 - supportCount0)
              else (focusCount0, wildcardCount0))
      in if wildcardCount1 < 0 then
           (if supportCount0 > 0
            then \<lparr>focusCount = focusCount1, supportCount = total' - focusCount1,
                  wildcardCount = 0\<rparr>
            else \<lparr>focusCount = total', supportCount = supportCount0, wildcardCount = 0\<rparr>)
         else \<lparr>focusCount = focusCount1, supportCount = supportCount0,
               wildcardCount = wildcardCount1\<rparr>)"

text \<open>
  The \<open>while (sequence.length < count)\<close> loop of \<open>buildSequenceFromPool\<close>. The method
  returns before the loop when the pool is empty; the loop guard repeats that test, which
  makes every pass add at least one element.
\<close>

function buildLoop :: "string list \<Rightarrow> int \<Rightarrow> string list \<Rightarrow> rng \<Rightarrow> string list \<times> rng" where
  "buildLoop pool count sequence g =
     (if pool \<noteq> [] \<and> int (length sequence) < count then
        (let (batch, g1) = Shuffle pool g;
             batch = (if length sequence > 0 \<and> length batch > 1 \<and> last sequence = hd batch
                      then tl batch @ [hd batch] else batch)
         in buildLoop pool count (sequence @ batch) g1)
      else (sequence, g))"
  by pat_completeness auto
termination
proof (relation "measure (\<lambda>(pool, count, sequence, g). nat (count - int (length sequence)))")
  show "wf (measure (\<lambda>(pool, count, sequence, g). nat (count - int (length sequence))))"
    by simp
next
  fix pool :: "string list" and count :: int and sequence :: "string list" and g :: rng
    and x :: "string list \<times> rng" and xa :: "string list" and y :: rng and xb :: "string list"
  assume guard: "pool \<noteq> [] \<and> int (length sequence) < count"
    and sh: "x = Shuffle pool g" and xy: "(xa, y) = x"
    and xb: "xb = (if 0 < length sequence \<and> 1 < length xa \<and> last sequence = hd xa
                   then tl xa @ [hd xa] else xa)"
  have len: "length (fst (shuffleLoop n (array :: string list) h)) = length array" for n array h
    by (induction n arbitrary: array h) (simp_all add: split_def Let_def)
  have "length xa = length pool"
    using len [of "length pool - 1" pool g] sh xy by (simp add: Shuffle_def) (metis fst_conv)
  with guard have "0 < length xb"
    using xb by (cases xa) auto
  with guard show "((pool, count, sequence @ xb, y), (pool, count, sequence, g))
      \<in> measure (\<lambda>(pool, count, sequence, g). nat (count - int (length sequence)))"
    by simp
qed

declare buildLoop.simps [simp del]

definition buildSequenceFromPool :: "string list \<Rightarrow> int \<Rightarrow> rng \<Rightarrow> string list \<times> rng" where
  "buildSequenceFromPool pool count g =
     (if length pool = 0 \<or> count \<le> 0 then ([], g)
      else (let (sequence, g1) = buildLoop pool count [] g in (slice0 sequence count, g1)))"

text \<open>The loop over the segments, appending each built sequence to the composition.\<close>

fun buildSegments :: "(string list \<times> int) list \<Rightarrow> rng \<Rightarrow> string list \<times> rng" where
  "buildSegments [] g = ([], g)"
| "buildSegments ((pool, size') # rest) g =
     (let (sequence, g1) = buildSequenceFromPool pool size' g;
          (more, g2) = buildSegments rest g1
      in (sequence @ more, g2))"

definition generateThemedComposition ::
  "WaveSystemV2 \<Rightarrow> int \<Rightarrow> string list \<Rightarrow> WaveTheme \<Rightarrow> rng \<Rightarrow> string list \<times> rng" where
  "generateThemedComposition this count availableTypes theme g =
     (let basePool = (if length availableTypes > 0 then availableTypes else [''goblin'']);
          focusPool = getEnemyPoolByTypes this basePool (focusTypes theme);
          supportPool = getEnemyPoolByTypes this basePool (supportTypes theme);
          wildcardPool = getEnemyPoolByTypes this basePool (wildcardTypes theme);
          resolvedFocusPool = (if length focusPool > 0 then focusPool else basePool);
          resolvedSupportPool = (if length supportPool > 0 then supportPool else resolvedFocusPool);
          resolvedWildcardPool =
             (if length wildcardPool > 0 then wildcardPool else resolvedSupportPool);
          counts = allocateThemeCounts count theme;
          segmentCount = getSegmentCount count (segmentCount theme);
          segments =
            (if segmentCount \<le> 1 then [(resolvedFocusPool, count)]
             else if segmentCount = 2 then
               [(resolvedFocusPool, focusCount counts),
                (resolvedSupportPool, count - focusCount counts)]
             else
               (let focusFirst = \<lceil>real_of_int (focusCount counts) / 2\<rceil>;
                    focusSecond = focusCount counts - focusFirst;
                    supportSize = supportCount counts
                       + (if segmentCount < 4 then wildcardCount counts else 0)
                in [(resolvedFocusPool, focusFirst)]
                   @ (if supportSize > 0 then [(resolvedSupportPool, supportSize)] else [])
                   @ (if segmentCount \<ge> 4 \<and> wildcardCount counts > 0
                      then [(resolvedWildcardPool, wildcardCount counts)] else [])
                   @ (if focusSecond > 0 then [(resolvedFocusPool, focusSecond)] else [])));
          (composition, g1) = buildSegments segments g;
          (composition, g2) =
             (if int (length composition) < count
              then (let (pad, g2) =
                          buildSequenceFromPool resolvedFocusPool
                            (count - int (length composition)) g1
                    in (composition @ pad, g2))
              else (composition, g1))
      in (slice0 composition count, g2))"

text \<open>The boss insertion loop \<open>for (i = 0; i < bossCount; i++)\<close>.\<close>

definition insertBosses :: "int \<Rightarrow> int \<Rightarrow> string \<Rightarrow> string list \<Rightarrow> string list" where
  "insertBosses bossCount spacing bossType spaced0 =
     fold (\<lambda>i spaced.
             let insertAt = min (int (length spaced)) (spacing * (int i + 1) + int i)
             in splice_insert (nat insertAt) bossType spaced)
       [0..<nat bossCount] spaced0"

definition generateWaveComposition ::
  "WaveSystemV2 \<Rightarrow> int \<Rightarrow> string list \<Rightarrow> WaveTheme \<Rightarrow> bool \<Rightarrow> rng \<Rightarrow> string list \<times> rng" where
  "generateWaveComposition this count availableTypes theme isBossWave g =
     (let availableBosses = getAvailableBossTypes this
      in if isBossWave \<and> length availableBosses > 0 then
           (let maxBosses = max 1 (currentWave this div 25);
                bossCount = min count maxBosses;
                (bossType, g1) = pick availableBosses g;
                remaining = max 0 (count - bossCount);
                (supportComposition, g2) =
                   generateThemedComposition this remaining availableTypes BOSS_SUPPORT_THEME g1
            in if length supportComposition = 0
               then (replicate (nat bossCount) bossType, g2)
               else (let spaced = supportComposition;
                         spacing = max 1 (int (length spaced) div (bossCount + 1))
                     in (insertBosses bossCount spacing bossType spaced, g2)))
         else generateThemedComposition this count availableTypes theme g)"

section \<open>Spawning and the wave runtime\<close>

text \<open>\<open>PathSystem.getSpawnPosition\<close>: the first waypoint, its \<open>x\<close> moved by
  \<open>Phaser.Math.Between(-20, 20)\<close>.\<close>

definition getSpawnPosition :: "real \<times> real \<Rightarrow> rng \<Rightarrow> (real \<times> real) \<times> rng" where
  "getSpawnPosition spawn g =
     (let (off, g1) = Between (- 20) 20 g in ((fst spawn + of_int off, snd spawn), g1))"

definition new_EnemyUnit :: "EnemyConfig \<Rightarrow> real \<Rightarrow> real \<Rightarrow> EnemyUnit" where
  "new_EnemyUnit cfg px py = \<lparr>config = cfg, pos_x = px, pos_y = py\<rparr>"

definition spawnFallbackEnemy :: "Scaling \<Rightarrow> WaveSystemV2 \<Rightarrow> WaveSystemV2" where
  "spawnFallbackEnemy scaling this =
     (let fallbackConfig =
            \<lparr>enemy_id = ''fallback'', name = ''Torch Goblin'', spriteKey = ''torch_goblin'',
             health = of_int \<lfloor>fmul 30 (healthMultiplier scaling)\<rfloor>,
             speed = of_int \<lfloor>fmul 80 (speedMultiplier scaling)\<rfloor>,
             damage = 1,
             reward = of_int \<lfloor>fmul 10 (rewardMultiplier scaling)\<rfloor>,
             scale = Some 0.5, enemyTypes = [SWARM, HUMANOID], unlockWave = 1,
             tags = [''light'', ''swarm''], animations_walk = ''torch_goblin_walk'',
             abilities = None\<rparr>;
          (spawnPos, g1) = getSpawnPosition (pathSystem this) (random this);
          enemy = new_EnemyUnit fallbackConfig (fst spawnPos) (snd spawnPos)
      in this\<lparr>random := g1, enemies := enemies this @ [enemy],
              scene := emit (enemySpawned enemy) (scene this)\<rparr>)"

definition spawnEnemy :: "string \<Rightarrow> Scaling \<Rightarrow> WaveSystemV2 \<Rightarrow> WaveSystemV2" where
  "spawnEnemy type scaling this =
     (case map_of (catalog this) type of
        None \<Rightarrow> spawnFallbackEnemy scaling this
      | Some baseConfig \<Rightarrow>
          (let scaledConfig = baseConfig
                 \<lparr>health := of_int \<lfloor>fmul (health baseConfig) (healthMultiplier scaling)\<rfloor>,
                  speed := of_int \<lfloor>fmul (speed baseConfig) (speedMultiplier scaling)\<rfloor>,
                  reward := of_int \<lfloor>fmul (reward baseConfig) (rewardMultiplier scaling)\<rfloor>\<rparr>;
               (spawnPos, g1) = getSpawnPosition (pathSystem this) (random this);
               enemy = new_EnemyUnit scaledConfig (fst spawnPos) (snd spawnPos)
           in this\<lparr>random := g1, enemies := enemies this @ [enemy],
                   scene := emit (enemySpawned enemy) (scene this)\<rparr>))"

text \<open>The \<open>forEach\<close> of \<open>startNextWave\<close>: one delayed call per entry of the
  composition, each pushed onto \<open>spawnTimers\<close>.\<close>

fun scheduleSpawns :: "string list \<Rightarrow> nat \<Rightarrow> Scaling \<Rightarrow> real \<Rightarrow> WaveSystemV2 \<Rightarrow> WaveSystemV2" where
  "scheduleSpawns [] index scaling gameSpeed this = this"
| "scheduleSpawns (enemyType # rest) index scaling gameSpeed this =
     (let spawnDelay = (of_nat index * of_int (spawnInterval scaling)) / gameSpeed;
          (timer, sc) = delayedCall spawnDelay (SpawnCallback enemyType scaling) (scene this)
      in scheduleSpawns rest (Suc index) scaling gameSpeed
           (this\<lparr>scene := sc, spawnTimers := spawnTimers this @ [timer]\<rparr>))"

text \<open>\<open>startNextWave(gameSpeed)\<close> returns its boolean result and the new state. The
  callers pass a positive game speed; the delays are not defined for a speed of 0.\<close>

definition startNextWave :: "real \<Rightarrow> WaveSystemV2 \<Rightarrow> bool \<times> WaveSystemV2" where
  "startNextWave gameSpeed this0 =
     (if waveInProgress this0 then (False, this0)
      else
        (let this = this0\<lparr>currentWave := currentWave this0 + 1, waveInProgress := True,
                           isSpawning := True, enemiesSpawnedThisWave := 0\<rparr>;
             availableTypes = getAvailableEnemyTypes this;
             isBossWave = (currentWave this mod 10 = 0 \<and> currentWave this > 0);
             theme = getWaveTheme this availableTypes isBossWave;
             scaling = getWaveScaling this (Some theme);
             this = this\<lparr>scene := emit (waveStarted (currentWave this)) (scene this)\<rparr>;
             (waveComposition, g1) =
                generateWaveComposition this (enemyCount scaling) availableTypes theme isBossWave
                  (random this);
             this = this\<lparr>random := g1\<rparr>;
             this = scheduleSpawns waveComposition 0 scaling gameSpeed this;
             totalSpawnTime =
                ((of_nat (length waveComposition) - 1) * of_int (spawnInterval scaling) + 500)
                  / gameSpeed;
             (marker, sc) = delayedCall totalSpawnTime SpawningFinishedCallback (scene this)
         in (True, this\<lparr>scene := sc\<rparr>)))"

text \<open>\<open>timer.destroy()\<close>, \<open>timer.paused = b\<close> (guarded by \<open>!timer.hasDispatched\<close>) on
  the timer with index \<open>i\<close>.\<close>

definition destroyTimer :: "nat \<Rightarrow> Scene \<Rightarrow> Scene" where
  "destroyTimer i sc = sc\<lparr>clock := (clock sc)[i := (clock sc ! i)\<lparr>callback := None\<rparr>]\<rparr>"

definition setPaused :: "bool \<Rightarrow> nat \<Rightarrow> Scene \<Rightarrow> Scene" where
  "setPaused b i sc =
     (if \<not> hasDispatched (clock sc ! i)
      then sc\<lparr>clock := (clock sc)[i := (clock sc ! i)\<lparr>paused := b\<rparr>]\<rparr>
      else sc)"

definition clear :: "WaveSystemV2 \<Rightarrow> WaveSystemV2" where
  "clear this =
     this\<lparr>scene := fold destroyTimer (spawnTimers this) (scene this),
          spawnTimers := [],
          enemies := [],
          waveInProgress := False,
          isSpawning := False\<rparr>"

definition pauseSpawning :: "WaveSystemV2 \<Rightarrow> WaveSystemV2" where
  "pauseSpawning this = this\<lparr>scene := fold (setPaused True) (spawnTimers this) (scene this)\<rparr>"

definition resumeSpawning :: "WaveSystemV2 \<Rightarrow> WaveSystemV2" where
  "resumeSpawning this = this\<lparr>scene := fold (setPaused False) (spawnTimers this) (scene this)\<rparr>"

text \<open>
  The scene clock (Phaser's \<open>Clock.update\<close>): a timer that is not paused advances by
  \<open>delta\<close>; when it reaches its delay it runs its callback once, unless the callback was
  cleared by \<open>destroy()\<close>.
\<close>

definition runCallback :: "Callback \<Rightarrow> WaveSystemV2 \<Rightarrow> WaveSystemV2" where
  "runCallback cb this =
     (case cb of
        SpawnCallback enemyType scaling \<Rightarrow>
          (let this1 = spawnEnemy enemyType scaling this
           in this1\<lparr>enemiesSpawnedThisWave := enemiesSpawnedThisWave this1 + 1\<rparr>)
      | SpawningFinishedCallback \<Rightarrow> this\<lparr>isSpawning := False\<rparr>)"

definition setTimer :: "nat \<Rightarrow> TimerEvent \<Rightarrow> WaveSystemV2 \<Rightarrow> WaveSystemV2" where
  "setTimer i ev this = this\<lparr>scene := (scene this)\<lparr>clock := (clock (scene this))[i := ev]\<rparr>\<rparr>"

fun clockLoop :: "real \<Rightarrow> nat list \<Rightarrow> WaveSystemV2 \<Rightarrow> WaveSystemV2" where
  "clockLoop delta [] this = this"
| "clockLoop delta (i # rest) this =
     (let ev = clock (scene this) ! i
      in if paused ev then clockLoop delta rest this
         else if elapsed ev + delta \<ge> delay ev then
           (case callback ev of
              Some cb \<Rightarrow>
                (if \<not> hasDispatched ev
                 then clockLoop delta rest
                        (runCallback cb
                           (setTimer i (ev\<lparr>elapsed := delay ev, hasDispatched := True\<rparr>) this))
                 else clockLoop delta rest (setTimer i (ev\<lparr>elapsed := delay ev\<rparr>) this))
            | None \<Rightarrow> clockLoop delta rest (setTimer i (ev\<lparr>elapsed := delay ev\<rparr>) this))
         else clockLoop delta rest (setTimer i (ev\<lparr>elapsed := elapsed ev + delta\<rparr>) this))"

definition clockUpdate :: "real \<Rightarrow> WaveSystemV2 \<Rightarrow> WaveSystemV2" where
  "clockUpdate delta this = clockLoop delta [0..<length (clock (scene this))] this"

section \<open>Observations used by the statements\<close>

text \<open>An archetype id names a boss when its catalog entry carries the tag \<open>boss\<close>; an
  id without an entry spawns the fallback unit, which is no boss.\<close>

definition bossArchetype :: "WaveSystemV2 \<Rightarrow> string \<Rightarrow> bool" where
  "bossArchetype this enemyId =
     (case map_of (catalog this) enemyId of None \<Rightarrow> False | Some cfg \<Rightarrow> isBoss cfg)"

text \<open>The archetypes of the spawn callbacks held by the timers with the given
  indices, in order.\<close>

definition spawnTypes :: "WaveSystemV2 \<Rightarrow> nat list \<Rightarrow> string list" where
  "spawnTypes this timers =
     concat (map (\<lambda>i. case callback (clock (scene this) ! i) of
                         Some (SpawnCallback enemyType scaling) \<Rightarrow> [enemyType]
                       | _ \<Rightarrow> []) timers)"

text \<open>The spawn timers that a call added to \<open>spawnTimers\<close>.\<close>

definition newTimers :: "WaveSystemV2 \<Rightarrow> WaveSystemV2 \<Rightarrow> nat list" where
  "newTimers before after = drop (length (spawnTimers before)) (spawnTimers after)"

text \<open>The timer that \<open>startNextWave\<close> creates for entry \<open>k\<close> of the composition.\<close>

definition spawnTimer :: "Scaling \<Rightarrow> real \<Rightarrow> nat \<times> string \<Rightarrow> TimerEvent" where
  "spawnTimer scaling gameSpeed = (\<lambda>(k, enemyType).
     \<lparr>delay = (of_nat k * of_int (spawnInterval scaling)) / gameSpeed, elapsed = 0,
      paused = False, hasDispatched = False,
      callback = Some (SpawnCallback enemyType scaling)\<rparr>)"

text \<open>
  The intermediate values of an accepted \<open>startNextWave\<close> call, named after its local
  variables: the state after the counters are set, the boss-wave flag, the theme, the
  scaling and the composition together with the random supply left over.
\<close>

definition enteredWave :: "WaveSystemV2 \<Rightarrow> WaveSystemV2" where
  "enteredWave this0 =
     this0\<lparr>currentWave := currentWave this0 + 1, waveInProgress := True,
           isSpawning := True, enemiesSpawnedThisWave := 0\<rparr>"

definition plannedBossWave :: "WaveSystemV2 \<Rightarrow> bool" where
  "plannedBossWave this0 =
     (currentWave (enteredWave this0) mod 10 = 0 \<and> currentWave (enteredWave this0) > 0)"

definition plannedTheme :: "WaveSystemV2 \<Rightarrow> WaveTheme" where
  "plannedTheme this0 =
     getWaveTheme (enteredWave this0) (getAvailableEnemyTypes (enteredWave this0))
       (plannedBossWave this0)"

definition plannedScaling :: "WaveSystemV2 \<Rightarrow> Scaling" where
  "plannedScaling this0 = getWaveScaling (enteredWave this0) (Some (plannedTheme this0))"

definition plannedComposition :: "WaveSystemV2 \<Rightarrow> string list \<times> rng" where
  "plannedComposition this0 =
     generateWaveComposition
       ((enteredWave this0)\<lparr>scene :=
            emit (waveStarted (currentWave (enteredWave this0))) (scene (enteredWave this0))\<rparr>)
       (enemyCount (plannedScaling this0)) (getAvailableEnemyTypes (enteredWave this0))
       (plannedTheme this0) (plannedBossWave this0) (random this0)"

text \<open>The completion marker of a wave with \<open>n\<close> entries.\<close>

definition markerTimer :: "Scaling \<Rightarrow> real \<Rightarrow> nat \<Rightarrow> TimerEvent" where
  "markerTimer scaling gameSpeed n =
     \<lparr>delay = ((of_nat n - 1) * of_int (spawnInterval scaling) + 500) / gameSpeed,
      elapsed = 0, paused = False, hasDispatched = False,
      callback = Some SpawningFinishedCallback\<rparr>"

text \<open>The configuration that \<open>BattleScene\<close> passes on normal difficulty (only the
  reward and health multipliers are given), and a new instance on an empty scene.\<close>

definition battleConfig :: WaveSystemV2Config where
  "battleConfig =
     \<lparr>cfg_pathSystem = (360, 160), cfg_rewardMultiplier = Some 0.75,
      cfg_healthMultiplier = Some 1.25, countMultiplier = None, cfg_speedMultiplier = None\<rparr>"

definition freshSystem :: "rng \<Rightarrow> WaveSystemV2" where
  "freshSystem g = new_WaveSystemV2 \<lparr>events = [], clock = []\<rparr> g battleConfig"

text \<open>Concrete inputs for the examples: a random supply whose draws are all 0, an
  instance about to start wave 10, the same with a count multiplier of 0, instances in
  waves 1, 11 and 21 and one with a wave in progress.\<close>

definition zeroSupply :: rng where
  "zeroSupply = (\<lambda>k. 0)"

definition beforeWave10 :: WaveSystemV2 where
  "beforeWave10 = (freshSystem zeroSupply)\<lparr>currentWave := 9\<rparr>"

definition beforeWave10_noCount :: WaveSystemV2 where
  "beforeWave10_noCount =
     (new_WaveSystemV2 \<lparr>events = [], clock = []\<rparr> zeroSupply
        (battleConfig\<lparr>countMultiplier := Some 0\<rparr>))\<lparr>currentWave := 9\<rparr>"

definition inWave1 :: WaveSystemV2 where
  "inWave1 = (freshSystem zeroSupply)\<lparr>currentWave := 1\<rparr>"

definition inWave11 :: WaveSystemV2 where
  "inWave11 = (freshSystem zeroSupply)\<lparr>currentWave := 11\<rparr>"

definition inWave21 :: WaveSystemV2 where
  "inWave21 = (freshSystem zeroSupply)\<lparr>currentWave := 21\<rparr>"

text \<open>A new instance after its first accepted \<open>startNextWave(1)\<close>.\<close>

definition wave1Started :: WaveSystemV2 where
  "wave1Started = snd (startNextWave 1 (freshSystem zeroSupply))"

definition exampleScaling :: Scaling where
  "exampleScaling =
     \<lparr>enemyCount = 8, healthMultiplier = 1.29, speedMultiplier = 1.4,
      rewardMultiplier = 0.72, spawnInterval = 809\<rparr>"

definition busySystem :: WaveSystemV2 where
  "busySystem = (freshSystem zeroSupply)\<lparr>currentWave := 3, waveInProgress := True\<rparr>"

section \<open>Properties of the rounding\<close>

lemma expo_bounds:
  assumes "0 < x"
  shows "2 powi expo x \<le> x \<and> x < 2 powi (expo x + 1)"
proof (cases "1 \<le> x")
  case True
  define n where "n = nat \<lfloor>x\<rfloor>"
  define k where "k = floorlog 2 n"
  have n1: "1 \<le> n" using True unfolding n_def by (simp add: le_nat_iff)
  have b: "2 ^ (k - 1) \<le> n \<and> n < 2 ^ k"
    unfolding k_def using floorlog_bounds [of n 2] n1 by simp
  have k1: "1 \<le> k" using b n1 by (cases k) auto
  have e: "expo x = int (k - 1)" unfolding expo_def k_def n_def using True k1 [unfolded k_def n_def]
    by simp
  have rn: "real n = of_int \<lfloor>x\<rfloor>" unfolding n_def using True by simp
  have nx: "real n \<le> x" "x < real n + 1" unfolding rn by linarith+
  have "(2::real) ^ (k - 1) \<le> real n" using b
    by (metis of_nat_le_iff of_nat_numeral of_nat_power)
  hence lo: "2 powi expo x \<le> x" unfolding e power_int_of_nat using nx by linarith
  have "real n + 1 \<le> 2 ^ k" using b
    by (metis Suc_leI of_nat_Suc of_nat_le_iff of_nat_numeral of_nat_power add.commute)
  moreover have "expo x + 1 = int k" using e k1 by simp
  ultimately have "x < 2 powi (expo x + 1)" unfolding power_int_of_nat using nx by simp
  with lo show ?thesis by simp
next
  case False
  define y where "y = 1 / x"
  define m where "m = \<lceil>y\<rceil>"
  define n where "n = nat (m - 1)"
  define k where "k = floorlog 2 n"
  have y1: "1 < y" using False assms unfolding y_def by simp
  have my: "real_of_int m - 1 < y" "y \<le> real_of_int m" unfolding m_def by linarith+
  have c2: "2 \<le> m" using my y1 by linarith
  have n1: "1 \<le> n" unfolding n_def using c2 by linarith
  have b: "2 ^ (k - 1) \<le> n \<and> n < 2 ^ k"
    unfolding k_def using floorlog_bounds [of n 2] n1 by simp
  have e: "expo x = - int k" unfolding expo_def k_def n_def m_def y_def using False by simp
  have rn: "real n = real_of_int m - 1" unfolding n_def using c2 by simp
  have ny: "real n < y" "y \<le> real n + 1" unfolding rn using my by linarith+
  have "(2::real) ^ (k - 1) \<le> real n" using b
    by (metis of_nat_le_iff of_nat_numeral of_nat_power)
  hence ylo: "2 ^ (k - 1) < y" using ny by linarith
  have "real n + 1 \<le> 2 ^ k" using b
    by (metis Suc_leI of_nat_Suc of_nat_le_iff of_nat_numeral of_nat_power add.commute)
  hence yhi: "y \<le> 2 ^ k" using ny by linarith
  have k1: "1 \<le> k" using b n1 by (cases k) auto
  have xy: "x = 1 / y" unfolding y_def by simp
  have "1 / 2 ^ k \<le> 1 / y" using yhi y1 by (intro divide_left_mono) simp_all
  hence lo: "2 powi expo x \<le> x" unfolding e xy [symmetric] by (simp add: power_int_minus_divide)
  have "1 / y < 1 / 2 ^ (k - 1)" using ylo y1 by (intro divide_strict_left_mono) simp_all
  moreover have "expo x + 1 = - int (k - 1)" using e k1 by simp
  ultimately have "x < 2 powi (expo x + 1)" unfolding xy [symmetric]
    by (simp add: power_int_minus_divide)
  with lo show ?thesis by simp
qed

lemma expo_unique:
  assumes "2 powi e \<le> x" "x < 2 powi (e + 1)"
  shows "expo x = e"
proof -
  have x0: "0 < x" using assms(1) zero_less_power_int [of "2::real" e] by linarith
  note b = expo_bounds [OF x0]
  have lt1: "2 powi expo x < (2::real) powi (e + 1)" using b assms by linarith
  have 1: "expo x < e + 1"
  proof (rule ccontr)
    assume "\<not> expo x < e + 1"
    hence "(2::real) powi (e + 1) \<le> 2 powi expo x" by (intro power_int_increasing) simp_all
    thus False using lt1 by simp
  qed
  have lt2: "2 powi e < (2::real) powi (expo x + 1)" using b assms by linarith
  have 2: "e < expo x + 1"
  proof (rule ccontr)
    assume "\<not> e < expo x + 1"
    hence "(2::real) powi (expo x + 1) \<le> 2 powi e" by (intro power_int_increasing) simp_all
    thus False using lt2 by simp
  qed
  from 1 2 show ?thesis by simp
qed


lemma expo_mono:
  assumes "0 < x" "x \<le> y"
  shows "expo x \<le> expo y"
proof (rule ccontr)
  assume "\<not> expo x \<le> expo y"
  hence "expo y + 1 \<le> expo x" by simp
  hence "(2::real) powi (expo y + 1) \<le> 2 powi expo x" by (intro power_int_increasing) simp_all
  moreover have "2 powi expo x \<le> x" using expo_bounds [OF assms(1)] by simp
  moreover have "y < 2 powi (expo y + 1)" using expo_bounds [of y] assms by simp
  ultimately show False using assms(2) by linarith
qed

lemma rne_cases: "rne x = \<lfloor>x\<rfloor> \<or> rne x = \<lfloor>x\<rfloor> + 1"
  unfolding rne_def Let_def by simp

lemma rne_of_int: "rne (of_int k) = k"
  unfolding rne_def Let_def by simp

lemma rne_bounds: "\<lfloor>x\<rfloor> \<le> rne x" "rne x \<le> \<lceil>x\<rceil>"
proof -
  show "\<lfloor>x\<rfloor> \<le> rne x" using rne_cases [of x] by linarith
  show "rne x \<le> \<lceil>x\<rceil>"
  proof (cases "x = of_int \<lfloor>x\<rfloor>")
    case True
    have "rne x = \<lfloor>x\<rfloor>" using rne_of_int [of "\<lfloor>x\<rfloor>"] True by simp
    thus ?thesis by linarith
  next
    case False
    hence "\<lceil>x\<rceil> = \<lfloor>x\<rfloor> + 1" by (simp add: ceiling_altdef)
    thus ?thesis using rne_cases [of x] by linarith
  qed
qed

lemma rne_le: "x \<le> of_int k \<Longrightarrow> rne x \<le> k"
  using rne_bounds(2) [of x] by (simp add: ceiling_le_iff order_trans [OF _ iffD2 [OF ceiling_le_iff]])

lemma rne_ge: "of_int k \<le> x \<Longrightarrow> k \<le> rne x"
  using rne_bounds(1) [of x] by (simp add: le_floor_iff order_trans [OF iffD2 [OF le_floor_iff]])

lemma rne_mono:
  assumes "x \<le> y"
  shows "rne x \<le> rne y"
proof (cases "\<lfloor>x\<rfloor> = \<lfloor>y\<rfloor>")
  case True
  have "x - of_int \<lfloor>x\<rfloor> \<le> y - of_int \<lfloor>x\<rfloor>" using assms by simp
  thus ?thesis unfolding rne_def Let_def True [symmetric] by auto
next
  case False
  hence "\<lfloor>x\<rfloor> + 1 \<le> \<lfloor>y\<rfloor>" using floor_mono [OF assms] by linarith
  thus ?thesis using rne_cases [of x] rne_bounds(1) [of y] by linarith
qed


lemma fl_pos:
  assumes "0 < x"
  shows "fl x = of_int (rne (x / 2 powi (expo x - 52))) * 2 powi (expo x - 52)"
  using assms unfolding fl_def Let_def by simp

lemma two_powi_split: "(2::real) powi e = 2 ^ 52 * 2 powi (e - 52)"
  using power_int_add [of "2::real" 52 "e - 52"] by simp

lemma two_powi_split': "(2::real) powi (e + 1) = 2 ^ 53 * 2 powi (e - 52)"
proof -
  have "e + 1 = 53 + (e - 52)" by simp
  thus ?thesis using power_int_add [of "2::real" 53 "e - 52"] by (simp add: add.commute)
qed

lemma scaled_bounds:
  assumes "0 < x"
  shows "2 ^ 52 \<le> x / 2 powi (expo x - 52)" "x / 2 powi (expo x - 52) < 2 ^ 53"
proof -
  have u: "0 < (2::real) powi (expo x - 52)" by simp
  note b = expo_bounds [OF assms]
  show "2 ^ 52 \<le> x / 2 powi (expo x - 52)"
    using b two_powi_split [of "expo x"] by (simp only: pos_le_divide_eq [OF u])
  show "x / 2 powi (expo x - 52) < 2 ^ 53"
    using b two_powi_split' [of "expo x"] by (simp only: pos_divide_less_eq [OF u])
qed

lemma rne_scaled_bounds:
  assumes "0 < x"
  shows "2 ^ 52 \<le> rne (x / 2 powi (expo x - 52))" "rne (x / 2 powi (expo x - 52)) \<le> 2 ^ 53"
proof -
  have "real_of_int (2 ^ 52) \<le> x / 2 powi (expo x - 52)" using scaled_bounds(1) [OF assms] by simp
  thus "2 ^ 52 \<le> rne (x / 2 powi (expo x - 52))" by (rule rne_ge)
  have "x / 2 powi (expo x - 52) \<le> real_of_int (2 ^ 53)" using scaled_bounds(2) [OF assms] by simp
  thus "rne (x / 2 powi (expo x - 52)) \<le> 2 ^ 53" by (rule rne_le)
qed

lemma fl_pos_range:
  assumes "0 < x"
  shows "2 powi expo x \<le> fl x" "fl x \<le> 2 powi (expo x + 1)"
proof -
  have u: "0 \<le> (2::real) powi (expo x - 52)" by simp
  have "real_of_int (2 ^ 52) \<le> of_int (rne (x / 2 powi (expo x - 52)))"
    using rne_scaled_bounds(1) [OF assms] by (simp only: of_int_le_iff)
  hence "(2::real) ^ 52 * 2 powi (expo x - 52) \<le> of_int (rne (x / 2 powi (expo x - 52))) * 2 powi (expo x - 52)"
    using u by (intro mult_right_mono) simp_all
  thus "2 powi expo x \<le> fl x" unfolding fl_pos [OF assms] two_powi_split [of "expo x"] .
  have "real_of_int (rne (x / 2 powi (expo x - 52))) \<le> of_int (2 ^ 53)"
    using rne_scaled_bounds(2) [OF assms] by (simp only: of_int_le_iff)
  hence "of_int (rne (x / 2 powi (expo x - 52))) * 2 powi (expo x - 52) \<le> (2::real) ^ 53 * 2 powi (expo x - 52)"
    using u by (intro mult_right_mono) simp_all
  thus "fl x \<le> 2 powi (expo x + 1)" unfolding fl_pos [OF assms] two_powi_split' [of "expo x"] .
qed

lemma fl_0: "fl 0 = 0"
  unfolding fl_def by simp

lemma fl_pos_pos:
  assumes "0 < x"
  shows "0 < fl x"
  using fl_pos_range(1) [OF assms] zero_less_power_int [of "2::real" "expo x"] by linarith

lemma fl_nonneg: "0 \<le> x \<Longrightarrow> 0 \<le> fl x"
  using fl_pos_pos [of x] fl_0 by (cases "x = 0") auto

lemma fl_mono_pos:
  assumes "0 < x" "x \<le> y"
  shows "fl x \<le> fl y"
proof (cases "expo x = expo y")
  case True
  have y: "0 < y" using assms by simp
  have u: "0 < (2::real) powi (expo y - 52)" by simp
  have "x / 2 powi (expo y - 52) \<le> y / 2 powi (expo y - 52)"
    using assms(2) u by (intro divide_right_mono) simp_all
  hence "rne (x / 2 powi (expo y - 52)) \<le> rne (y / 2 powi (expo y - 52))" by (rule rne_mono)
  hence "real_of_int (rne (x / 2 powi (expo y - 52))) \<le> of_int (rne (y / 2 powi (expo y - 52)))"
    by (simp only: of_int_le_iff)
  hence "real_of_int (rne (x / 2 powi (expo y - 52))) * 2 powi (expo y - 52)
         \<le> of_int (rne (y / 2 powi (expo y - 52))) * 2 powi (expo y - 52)"
    using u by (intro mult_right_mono) simp_all
  thus ?thesis unfolding fl_pos [OF assms(1)] fl_pos [OF y] True .
next
  case False
  have y: "0 < y" using assms by simp
  have "expo x + 1 \<le> expo y" using expo_mono [OF assms] False by simp
  hence "(2::real) powi (expo x + 1) \<le> 2 powi expo y" by (intro power_int_increasing) simp_all
  thus ?thesis using fl_pos_range(2) [OF assms(1)] fl_pos_range(1) [OF y] by linarith
qed

lemma fl_mono_nonneg:
  assumes "0 \<le> x" "x \<le> y"
  shows "fl x \<le> fl y"
proof (cases "x = 0")
  case True
  thus ?thesis using fl_nonneg [of y] assms fl_0 by simp
next
  case False
  thus ?thesis using fl_mono_pos [of x y] assms by simp
qed

lemma fl_exact:
  assumes "0 < x" "x = of_int M * 2 powi (expo x - 52)"
  shows "fl x = x"
proof -
  have u: "(2::real) powi (expo x - 52) \<noteq> 0" by simp
  have "x / 2 powi (expo x - 52) = of_int M" using assms(2) u by (simp add: field_simps)
  hence "rne (x / 2 powi (expo x - 52)) = M" by (simp only: rne_of_int)
  thus ?thesis unfolding fl_pos [OF assms(1)] using assms(2) by simp
qed

lemma fl_idem_pos:
  assumes "0 < x"
  shows "fl (fl x) = fl x"
proof -
  define m where "m = rne (x / 2 powi (expo x - 52))"
  have fx: "fl x = of_int m * 2 powi (expo x - 52)" unfolding m_def by (rule fl_pos [OF assms])
  have mb: "2 ^ 52 \<le> m" "m \<le> 2 ^ 53" unfolding m_def by (rule rne_scaled_bounds [OF assms])+
  have p: "0 < fl x" by (rule fl_pos_pos [OF assms])
  show ?thesis
  proof (cases "m = 2 ^ 53")
    case True
    have v: "fl x = 2 powi (expo x + 1)" unfolding fx True two_powi_split' [of "expo x"] by simp
    have "expo (fl x) = expo x + 1"
      by (rule expo_unique) (simp_all add: v power_int_strict_increasing)
    moreover have "fl x = of_int (2 ^ 52) * 2 powi (expo x + 1 - 52)"
      unfolding v using two_powi_split [of "expo x + 1"] by simp
    ultimately show ?thesis using fl_exact [OF p, of "2 ^ 52"] by simp
  next
    case False
    hence lt: "m < 2 ^ 53" using mb by simp
    have u: "0 \<le> (2::real) powi (expo x - 52)" "0 < (2::real) powi (expo x - 52)" by simp_all
    have "real_of_int m < of_int (2 ^ 53)" using lt by (simp only: of_int_less_iff)
    hence "of_int m * 2 powi (expo x - 52) < (2::real) ^ 53 * 2 powi (expo x - 52)"
      using u by (intro mult_strict_right_mono) simp_all
    hence hi: "fl x < 2 powi (expo x + 1)" unfolding fx two_powi_split' [of "expo x"] .
    have "expo (fl x) = expo x"
      by (rule expo_unique) (use hi fl_pos_range(1) [OF assms] in simp_all)
    thus ?thesis using fl_exact [OF p, of m] fx by simp
  qed
qed

lemma fl_idem_nonneg: "0 \<le> x \<Longrightarrow> fl (fl x) = fl x"
  using fl_idem_pos [of x] fl_0 by (cases "x = 0") auto

lemma fl_of_int:
  assumes "0 \<le> n" "n < 2 ^ 53"
  shows "fl (of_int n) = of_int n"
proof (cases "n = 0")
  case True
  thus ?thesis by (simp add: fl_0)
next
  case False
  hence p: "0 < real_of_int n" using assms by simp
  define e where "e = expo (of_int n)"
  have "2 powi e \<le> real_of_int n" unfolding e_def using expo_bounds [OF p] by simp
  moreover have "real_of_int n < 2 ^ 53" using assms(2) by (metis of_int_less_iff of_int_numeral of_int_power)
  ultimately have "(2::real) powi e < 2 powi 53" by simp
  hence e52: "e \<le> 52"
  proof -
    have "\<not> 53 \<le> e"
    proof
      assume "53 \<le> e"
      hence "(2::real) powi 53 \<le> 2 powi e" by (intro power_int_increasing) simp_all
      thus False using \<open>(2::real) powi e < 2 powi 53\<close> by simp
    qed
    thus ?thesis by simp
  qed
  have "(2::real) powi (e - 52) * 2 powi (52 - e) = 1"
    using power_int_add [of "2::real" "e - 52" "52 - e"] by simp
  moreover have "(2::real) powi (52 - e) = of_int (2 ^ nat (52 - e))"
    using e52 by (simp add: power_int_def)
  ultimately have "real_of_int n = of_int (n * 2 ^ nat (52 - e)) * 2 powi (e - 52)"
    by (simp add: mult.assoc mult.commute)
  thus ?thesis using fl_exact [OF p, of "n * 2 ^ nat (52 - e)"] unfolding e_def by simp
qed

lemma fl_1: "fl 1 = 1"
  using fl_of_int [of 1] by simp


lemma rne_minus: "rne (- x) = - rne x"
proof (cases "x = of_int \<lfloor>x\<rfloor>")
  case True
  then obtain k where k: "x = of_int k" ..
  have "rne (- of_int k) = - k" using rne_of_int [of "- k"] by simp
  thus ?thesis unfolding k rne_of_int .
next
  case False
  define f where "f = \<lfloor>x\<rfloor>"
  define d where "d = x - of_int f"
  have d: "0 < d" "d < 1" using False unfolding d_def f_def by linarith+
  have fm: "\<lfloor>- x\<rfloor> = - f - 1" unfolding f_def using False
    by (simp add: floor_minus ceiling_altdef)
  have dm: "- x - of_int (- f - 1) = 1 - d" unfolding d_def by simp
  have r: "rne x = (if d < 1 / 2 then f else if 1 / 2 < d then f + 1
                     else if even f then f else f + 1)"
    unfolding rne_def Let_def f_def [symmetric] d_def [symmetric] ..
  have rm: "rne (- x) = (if 1 - d < 1 / 2 then - f - 1 else if 1 / 2 < 1 - d then - f - 1 + 1
                     else if even (- f - 1) then - f - 1 else - f - 1 + 1)"
    unfolding rne_def Let_def fm dm ..
  show ?thesis unfolding r rm using d by auto
qed

lemma fl_minus: "fl (- x) = - fl x"
  unfolding fl_def Let_def by (simp add: rne_minus)

lemma fl_idem: "fl (fl x) = fl x"
proof (cases "0 \<le> x")
  case True
  thus ?thesis by (rule fl_idem_nonneg)
next
  case False
  hence "fl (fl (- x)) = fl (- x)" by (intro fl_idem_nonneg) simp
  thus ?thesis unfolding fl_minus by simp
qed

lemma fl_mono:
  assumes "x \<le> y"
  shows "fl x \<le> fl y"
proof (cases "0 \<le> x")
  case True
  thus ?thesis using fl_mono_nonneg assms by simp
next
  case False
  show ?thesis
  proof (cases "0 \<le> y")
    case True
    have "0 \<le> fl (- x)" using False by (intro fl_nonneg) simp
    hence "fl x \<le> 0" unfolding fl_minus by simp
    thus ?thesis using fl_nonneg [OF True] by simp
  next
    case y: False
    have "fl (- y) \<le> fl (- x)" using y assms by (intro fl_mono_nonneg) simp_all
    thus ?thesis unfolding fl_minus by simp
  qed
qed

section \<open>Properties of the damage model\<close>

lemma ENEMY_DAMAGE_MULTIPLIERS_total: "\<exists>m. ENEMY_DAMAGE_MULTIPLIERS tag = Some m"
  by (cases tag) simp_all

lemma bestLoop_step:
  "bestLoop p (tag # rest) b = bestLoop p rest (max b (tagMultiplier p tag))"
proof -
  obtain m where "ENEMY_DAMAGE_MULTIPLIERS tag = Some m"
    using ENEMY_DAMAGE_MULTIPLIERS_total by blast
  then show ?thesis by (simp add: tagMultiplier_def Let_def max_def)
qed

lemma worstLoop_step:
  "worstLoop p (tag # rest) b = worstLoop p rest (min b (tagMultiplier p tag))"
proof -
  obtain m where "ENEMY_DAMAGE_MULTIPLIERS tag = Some m"
    using ENEMY_DAMAGE_MULTIPLIERS_total by blast
  then show ?thesis by (simp add: tagMultiplier_def Let_def min_def)
qed

lemma bestLoop_Max: "bestLoop p tgs b = Max (insert b (tagMultiplier p ` set tgs))"
proof (induction tgs arbitrary: b)
  case Nil
  show ?case by simp
next
  case (Cons tag rest)
  have "bestLoop p (tag # rest) b
      = Max (insert (max b (tagMultiplier p tag)) (tagMultiplier p ` set rest))"
    by (simp only: bestLoop_step Cons.IH)
  also have "\<dots> = Max (insert b (insert (tagMultiplier p tag) (tagMultiplier p ` set rest)))"
    by (cases "rest = []") (simp_all add: max.assoc)
  finally show ?case by simp
qed

lemma worstLoop_Min: "worstLoop p tgs b = Min (insert b (tagMultiplier p ` set tgs))"
proof (induction tgs arbitrary: b)
  case Nil
  show ?case by simp
next
  case (Cons tag rest)
  have "worstLoop p (tag # rest) b
      = Min (insert (min b (tagMultiplier p tag)) (tagMultiplier p ` set rest))"
    by (simp only: worstLoop_step Cons.IH)
  also have "\<dots> = Min (insert b (insert (tagMultiplier p tag) (tagMultiplier p ` set rest)))"
    by (cases "rest = []") (simp_all add: min.assoc)
  finally show ?case by simp
qed

lemma finalMultiplier_single: "finalMultiplier p [tag] = max 1 (tagMultiplier p tag)"
  by (simp add: finalMultiplier_def bestLoop_Max Let_def)

lemma finalMultiplier_multi:
  assumes "1 < length tgs"
  shows "finalMultiplier p tgs =
     fdiv (fadd (max 1 (Max (tagMultiplier p ` set tgs)))
                (min 1 (Min (tagMultiplier p ` set tgs)))) 2"
proof -
  from assms have ne: "tagMultiplier p ` set tgs \<noteq> {}" by auto
  have fin: "finite (tagMultiplier p ` set tgs)" by simp
  have b: "Max (insert 1 (tagMultiplier p ` set tgs)) = max 1 (Max (tagMultiplier p ` set tgs))"
    using Max_insert [OF fin ne] by simp
  have w: "Min (insert 1 (tagMultiplier p ` set tgs)) = min 1 (Min (tagMultiplier p ` set tgs))"
    using Min_insert [OF fin ne] by simp
  show ?thesis
    using assms by (simp add: finalMultiplier_def bestLoop_Max worstLoop_Min b w Let_def)
qed

text \<open>What the code computes for an enemy with one category tag: a multiplier below 1 is
  replaced by 1.\<close>

lemma calculateEffectiveDamage_single:
  "map_of TOWER_DAMAGE_PROFILES towerId = Some p \<Longrightarrow>
   calculateEffectiveDamage baseDamage towerId [tag]
     = of_int \<lfloor>fmul baseDamage (max 1 (tagMultiplier p tag))\<rfloor>"
  by (simp add: calculateEffectiveDamage_def finalMultiplier_single)

lemma ember_watch_aquatic: "calculateEffectiveDamage 100 ''ember_watch'' [AQUATIC] = 100"
  by code_simp

text \<open>In doubles, the mean of 1.8 and 0.5 is 1.15.\<close>

lemma mean_of_18_and_05: "fdiv (fadd (fl 1.8) (min 1 (fl 0.5))) 2 = fl 1.15"
  by code_simp

text \<open>
  Claim C1. For an enemy with one category tag the claim asks for
  \<open>floor(baseDamage * blended)\<close>. The code starts \<open>bestMultiplier\<close> at 1 and
  returns it for such an enemy, so a resistance (a blended multiplier below 1) never
  lowers the damage: the Ember Watch (pure fire) against a pure aquatic enemy, whose
  fire multiplier is 0.6, deals the full 100 of 100 base damage instead of 60.
\<close>

theorem single_tag_resistance_dropped:
  "map_of TOWER_DAMAGE_PROFILES ''ember_watch''
      = Some \<lparr>primary = FIRE, secondary = None, primaryRatio = 1\<rparr>
   \<and> blended \<lparr>primary = FIRE, secondary = None, primaryRatio = 1\<rparr> AQUATIC = 0.6
   \<and> \<lfloor>100 * blended \<lparr>primary = FIRE, secondary = None, primaryRatio = 1\<rparr> AQUATIC\<rfloor> = 60
   \<and> calculateEffectiveDamage 100 ''ember_watch'' [AQUATIC] = 100"
  unfolding ember_watch_aquatic
  by (simp add: TOWER_DAMAGE_PROFILES_def blended_def row_def)

text \<open>
  Claim C2, amended. For an enemy with two or more category tags of which at least one
  has a multiplier of 1 or more, the applied multiplier is the mean of \<open>best\<close> and
  \<open>worst\<close>, where \<open>best\<close> is the largest per-tag multiplier and \<open>worst\<close> is the
  smallest per-tag multiplier but at most 1 (the loop for \<open>worst\<close> starts from 1.0);
  the damage is the floor of the base damage times this mean, all in doubles. When the
  largest and smallest per-tag multipliers are 1.8 and 0.5 the applied multiplier is
  1.15.
\<close>

theorem multi_tag_multiplier:
  "1 < length tgs \<Longrightarrow> map_of TOWER_DAMAGE_PROFILES towerId = Some p \<Longrightarrow>
   1 \<le> Max (tagMultiplier p ` set tgs) \<Longrightarrow>
     finalMultiplier p tgs
       = fdiv (fadd (Max (tagMultiplier p ` set tgs))
                    (min 1 (Min (tagMultiplier p ` set tgs)))) 2
     \<and> calculateEffectiveDamage baseDamage towerId tgs
       = of_int \<lfloor>fmul baseDamage
           (fdiv (fadd (Max (tagMultiplier p ` set tgs))
                       (min 1 (Min (tagMultiplier p ` set tgs)))) 2)\<rfloor>
     \<and> (Max (tagMultiplier p ` set tgs) = fl 1.8 \<and> Min (tagMultiplier p ` set tgs) = fl 0.5
          \<longrightarrow> finalMultiplier p tgs = fl 1.15)"
proof -
  assume l: "1 < length tgs" and m: "map_of TOWER_DAMAGE_PROFILES towerId = Some p"
    and b: "1 \<le> Max (tagMultiplier p ` set tgs)"
  have f: "finalMultiplier p tgs
       = fdiv (fadd (Max (tagMultiplier p ` set tgs))
                    (min 1 (Min (tagMultiplier p ` set tgs)))) 2"
    using finalMultiplier_multi [OF l, of p] b by (simp add: max_absorb2)
  have e: "finalMultiplier p tgs = fl 1.15"
    if "Max (tagMultiplier p ` set tgs) = fl 1.8" "Min (tagMultiplier p ` set tgs) = fl 0.5"
    unfolding f that by (rule mean_of_18_and_05)
  show ?thesis
    using f e m by (simp add: calculateEffectiveDamage_def)
qed

text \<open>The Rockbound Bastion (pure physical) against a construct that is also armored:
  per-tag multipliers 1.8 and 0.5, applied multiplier 1.15, and 114 damage from a base
  of 100, the double product \<open>100 * 1.15\<close> being just below 115.\<close>

theorem multi_tag_multiplier_witness:
  "1 < length [CONSTRUCT, ARMORED]
   \<and> map_of TOWER_DAMAGE_PROFILES ''rockbound_bastion''
       = Some \<lparr>primary = PHYSICAL, secondary = None, primaryRatio = 1\<rparr>
   \<and> 1 \<le> Max (tagMultiplier \<lparr>primary = PHYSICAL, secondary = None, primaryRatio = 1\<rparr>
               ` set [CONSTRUCT, ARMORED])
   \<and> Max (tagMultiplier \<lparr>primary = PHYSICAL, secondary = None, primaryRatio = 1\<rparr>
          ` set [CONSTRUCT, ARMORED]) = fl 1.8
   \<and> Min (tagMultiplier \<lparr>primary = PHYSICAL, secondary = None, primaryRatio = 1\<rparr>
          ` set [CONSTRUCT, ARMORED]) = fl 0.5
   \<and> finalMultiplier \<lparr>primary = PHYSICAL, secondary = None, primaryRatio = 1\<rparr>
        [CONSTRUCT, ARMORED] = fl 1.15
   \<and> calculateEffectiveDamage 100 ''rockbound_bastion'' [CONSTRUCT, ARMORED] = 114"
proof -
  let ?p = "\<lparr>primary = PHYSICAL, secondary = None, primaryRatio = 1\<rparr>"
  have l: "1 < length [CONSTRUCT, ARMORED]" by simp
  have m: "map_of TOWER_DAMAGE_PROFILES ''rockbound_bastion'' = Some ?p"
    by (simp add: TOWER_DAMAGE_PROFILES_def)
  have mx: "Max (tagMultiplier ?p ` set [CONSTRUCT, ARMORED]) = fl 1.8"
    by code_simp
  have mn: "Min (tagMultiplier ?p ` set [CONSTRUCT, ARMORED]) = fl 0.5"
    by code_simp
  have ge: "1 \<le> Max (tagMultiplier ?p ` set [CONSTRUCT, ARMORED])"
    by code_simp
  note t = multi_tag_multiplier [OF l m ge, of 100]
  from t mx mn have f: "finalMultiplier ?p [CONSTRUCT, ARMORED] = fl 1.15"
    by blast
  from t have "calculateEffectiveDamage 100 ''rockbound_bastion'' [CONSTRUCT, ARMORED]
      = of_int \<lfloor>fmul 100 (fdiv (fadd (Max (tagMultiplier ?p ` set [CONSTRUCT, ARMORED]))
           (min 1 (Min (tagMultiplier ?p ` set [CONSTRUCT, ARMORED])))) 2)\<rfloor>"
    by blast
  also have "\<dots> = of_int \<lfloor>fmul 100 (fl 1.15)\<rfloor>"
    unfolding mx mn mean_of_18_and_05 ..
  also have "\<dots> = 114"
    by code_simp
  finally show ?thesis
    using l m ge mx mn f by blast
qed

text \<open>
  Claim C2 as stated fails when all per-tag multipliers lie above 1: the Ember Watch
  against a footman (humanoid and armored, fire multiplier 1.2 for both) applies the
  mean 1.1 of 1.2 and 1, not the mean 1.2 of the largest and the smallest.
\<close>

theorem multi_tag_mean_counterexample:
  "Max (tagMultiplier \<lparr>primary = FIRE, secondary = None, primaryRatio = 1\<rparr>
          ` set [HUMANOID, ARMORED]) = fl 1.2
   \<and> Min (tagMultiplier \<lparr>primary = FIRE, secondary = None, primaryRatio = 1\<rparr>
          ` set [HUMANOID, ARMORED]) = fl 1.2
   \<and> finalMultiplier \<lparr>primary = FIRE, secondary = None, primaryRatio = 1\<rparr>
        [HUMANOID, ARMORED] = fl 1.1
   \<and> finalMultiplier \<lparr>primary = FIRE, secondary = None, primaryRatio = 1\<rparr> [HUMANOID, ARMORED]
     \<noteq> fdiv (fadd (Max (tagMultiplier \<lparr>primary = FIRE, secondary = None, primaryRatio = 1\<rparr>
                          ` set [HUMANOID, ARMORED]))
                  (Min (tagMultiplier \<lparr>primary = FIRE, secondary = None, primaryRatio = 1\<rparr>
                          ` set [HUMANOID, ARMORED]))) 2"
  by code_simp

section \<open>Properties of the composition\<close>

lemma randomBelow_less: "0 < n \<Longrightarrow> fst (randomBelow n g) < n"
  by (simp add: randomBelow_def)

lemma length_shuffleLoop: "length (fst (shuffleLoop n array g)) = length array"
  by (induction n arbitrary: array g) (simp_all add: split_def Let_def)

lemma set_shuffleLoop: "n < length array \<Longrightarrow> set (fst (shuffleLoop n array g)) = set array"
proof (induction n arbitrary: array g)
  case 0
  show ?case by simp
next
  case (Suc n)
  let ?j = "fst (randomBelow (Suc n + 1) g)"
  have j: "?j < length array"
    using randomBelow_less [of "Suc n + 1" g] Suc.prems by simp
  have "set (array[Suc n := array ! ?j, ?j := array ! Suc n]) = set array"
    using set_swap [of "Suc n" array ?j] j Suc.prems by simp
  moreover have "n < length (array[Suc n := array ! ?j, ?j := array ! Suc n])"
    using Suc.prems by simp
  ultimately show ?case
    using Suc.IH [of "array[Suc n := array ! ?j, ?j := array ! Suc n]" "snd (randomBelow (Suc n + 1) g)"]
    by (simp add: split_def Let_def)
qed

lemma length_Shuffle: "length (fst (Shuffle array g)) = length array"
  by (simp add: Shuffle_def length_shuffleLoop)

lemma set_Shuffle: "set (fst (Shuffle array g)) = set array"
proof (cases array)
  case Nil
  then show ?thesis by (simp add: Shuffle_def)
next
  case (Cons a as)
  then show ?thesis by (simp add: Shuffle_def set_shuffleLoop)
qed

lemma buildLoop_set:
  "set (fst (buildLoop pool count sequence g)) \<subseteq> set sequence \<union> set pool"
proof (induction pool count sequence g rule: buildLoop.induct)
  case (1 pool count sequence g)
  show ?case
  proof (cases "pool \<noteq> [] \<and> int (length sequence) < count")
    case False
    then show ?thesis by (subst buildLoop.simps) auto
  next
    case True
    obtain batch g1 where sh: "Shuffle pool g = (batch, g1)" by (cases "Shuffle pool g")
    define batch' where "batch' =
       (if length sequence > 0 \<and> length batch > 1 \<and> last sequence = hd batch
        then tl batch @ [hd batch] else batch)"
    have sb: "set batch = set pool" using set_Shuffle [of pool g] sh by simp
    have "set batch' \<subseteq> set batch"
      unfolding batch'_def by (cases batch) auto
    with sb have sb': "set batch' \<subseteq> set pool" by simp
    have ih: "set (fst (buildLoop pool count (sequence @ batch') g1))
        \<subseteq> set (sequence @ batch') \<union> set pool"
      using "1.IH" [OF True sh [symmetric] refl batch'_def] .
    have unf: "buildLoop pool count sequence g = buildLoop pool count (sequence @ batch') g1"
      using True sh by (subst buildLoop.simps) (simp add: batch'_def Let_def)
    show ?thesis using ih sb' unfolding unf by auto
  qed
qed

lemma buildLoop_length:
  "pool \<noteq> [] \<Longrightarrow> count \<le> int (length (fst (buildLoop pool count sequence g)))"
proof (induction pool count sequence g rule: buildLoop.induct)
  case (1 pool count sequence g)
  show ?case
  proof (cases "int (length sequence) < count")
    case False
    then show ?thesis by (subst buildLoop.simps) simp
  next
    case True
    with "1.prems" have guard: "pool \<noteq> [] \<and> int (length sequence) < count" by simp
    obtain batch g1 where sh: "Shuffle pool g = (batch, g1)" by (cases "Shuffle pool g")
    define batch' where "batch' =
       (if length sequence > 0 \<and> length batch > 1 \<and> last sequence = hd batch
        then tl batch @ [hd batch] else batch)"
    have ih: "count \<le> int (length (fst (buildLoop pool count (sequence @ batch') g1)))"
      using "1.IH" [OF guard sh [symmetric] refl batch'_def "1.prems"] .
    have unf: "buildLoop pool count sequence g = buildLoop pool count (sequence @ batch') g1"
      using guard sh by (subst buildLoop.simps) (simp add: batch'_def Let_def)
    show ?thesis using ih unfolding unf .
  qed
qed

lemma length_slice0: "0 \<le> e \<Longrightarrow> e \<le> int (length xs) \<Longrightarrow> length (slice0 xs e) = nat e"
  by (simp add: slice0_def)

lemma set_slice0: "set (slice0 xs e) \<subseteq> set xs"
  by (auto simp: slice0_def dest: in_set_takeD)

lemma buildSequenceFromPool_length:
  "pool \<noteq> [] \<Longrightarrow> length (fst (buildSequenceFromPool pool count g)) = nat count"
  by (simp add: buildSequenceFromPool_def split_def Let_def length_slice0 buildLoop_length)

lemma buildSequenceFromPool_set:
  "set (fst (buildSequenceFromPool pool count g)) \<subseteq> set pool"
proof -
  have "set (fst (buildLoop pool count [] g)) \<subseteq> set pool"
    using buildLoop_set [of pool count "[]" g] by simp
  then show ?thesis
    using set_slice0 [of "fst (buildLoop pool count [] g)" count]
    by (auto simp: buildSequenceFromPool_def split_def Let_def)
qed

lemma buildSegments_set:
  "\<forall>seg \<in> set segments. set (fst seg) \<subseteq> B \<Longrightarrow> set (fst (buildSegments segments g)) \<subseteq> B"
proof (induction segments arbitrary: g)
  case Nil
  show ?case by simp
next
  case (Cons seg rest)
  obtain pool sz where seg: "seg = (pool, sz)" by (cases seg)
  have a: "set (fst (buildSequenceFromPool pool sz g)) \<subseteq> B"
    using buildSequenceFromPool_set [of pool sz g] Cons.prems seg by auto
  have b: "set (fst (buildSegments rest (snd (buildSequenceFromPool pool sz g)))) \<subseteq> B"
    using Cons.IH Cons.prems by simp
  show ?case using a b by (simp add: seg split_def Let_def)
qed


lemma pad_slice_length:
  assumes "F \<noteq> []" "0 \<le> count"
  shows "length (slice0 (fst (if int (length c) < count
              then (c @ fst (buildSequenceFromPool F (count - int (length c)) g1),
                    snd (buildSequenceFromPool F (count - int (length c)) g1))
              else (c, g1))) count) = nat count"
  using assms by (auto simp: buildSequenceFromPool_length length_slice0)

lemma pad_slice_set:
  assumes "set c \<subseteq> B" "set F \<subseteq> B"
  shows "set (slice0 (fst (if int (length c) < count
              then (c @ fst (buildSequenceFromPool F (count - int (length c)) g1),
                    snd (buildSequenceFromPool F (count - int (length c)) g1))
              else (c, g1))) count) \<subseteq> B"
proof -
  let ?pad = "fst (buildSequenceFromPool F (count - int (length c)) g1)"
  have p: "set ?pad \<subseteq> B"
    using buildSequenceFromPool_set [of F "count - int (length c)" g1] assms(2) by blast
  show ?thesis
  proof (cases "int (length c) < count")
    case True
    have "set (slice0 (c @ ?pad) count) \<subseteq> set (c @ ?pad)" by (rule set_slice0)
    with p assms(1) True show ?thesis by auto
  next
    case False
    have "set (slice0 c count) \<subseteq> set c" by (rule set_slice0)
    with assms(1) False show ?thesis by auto
  qed
qed

lemma getEnemyPoolByTypes_subset: "set (getEnemyPoolByTypes this pool types) \<subseteq> set pool"
  by (auto simp: getEnemyPoolByTypes_def)

lemma generateThemedComposition_length:
  assumes "0 \<le> count"
  shows "length (fst (generateThemedComposition this count availableTypes theme g)) = nat count"
  unfolding generateThemedComposition_def Let_def split_def fst_conv
  by (rule pad_slice_length) (use assms in auto)

lemma generateThemedComposition_set:
  "set (fst (generateThemedComposition this count availableTypes theme g))
     \<subseteq> set (if length availableTypes > 0 then availableTypes else [''goblin''])"
proof -
  define B where "B = (if length availableTypes > 0 then availableTypes else [''goblin''])"
  define F where "F = (if 0 < length (getEnemyPoolByTypes this B (focusTypes theme))
            then getEnemyPoolByTypes this B (focusTypes theme) else B)"
  define S where "S = (if 0 < length (getEnemyPoolByTypes this B (supportTypes theme))
            then getEnemyPoolByTypes this B (supportTypes theme) else F)"
  define W where "W = (if 0 < length (getEnemyPoolByTypes this B (wildcardTypes theme))
            then getEnemyPoolByTypes this B (wildcardTypes theme) else S)"
  have F: "set F \<subseteq> set B"
    using getEnemyPoolByTypes_subset [of this B] by (simp add: F_def)
  have S: "set S \<subseteq> set B"
    using getEnemyPoolByTypes_subset [of this B] F by (simp add: S_def)
  have W: "set W \<subseteq> set B"
    using getEnemyPoolByTypes_subset [of this B] S by (simp add: W_def)
  show ?thesis
    unfolding generateThemedComposition_def Let_def split_def fst_conv
      B_def [symmetric] F_def [symmetric] S_def [symmetric] W_def [symmetric]
    by (rule pad_slice_set [OF buildSegments_set F]) (use F S W in \<open>auto split: if_splits\<close>)
qed

lemma splice_insert_length: "length (splice_insert i v xs) = Suc (length xs)"
  by (simp add: splice_insert_def)

lemma splice_insert_filter:
  "length (filter P (splice_insert i v xs)) = length (filter P xs) + (if P v then 1 else 0)"
proof -
  have "length (filter P (take i xs)) + length (filter P (drop i xs)) = length (filter P xs)"
    by (metis append_take_drop_id filter_append length_append)
  then show ?thesis by (simp add: splice_insert_def)
qed

lemma fold_splice_length:
  "length (fold (\<lambda>i spaced. splice_insert (k i spaced) v spaced) is xs) = length xs + length is"
  by (induction "is" arbitrary: xs) (simp_all add: splice_insert_length)

lemma fold_splice_filter:
  "length (filter P (fold (\<lambda>i spaced. splice_insert (k i spaced) v spaced) is xs))
     = length (filter P xs) + (if P v then length is else 0)"
  by (induction "is" arbitrary: xs) (simp_all add: splice_insert_filter)

lemma insertBosses_length:
  "length (insertBosses bossCount spacing bossType spaced) = length spaced + nat bossCount"
  unfolding insertBosses_def Let_def
  using fold_splice_length
    [of "\<lambda>i spaced. nat (min (int (length spaced)) (spacing * (int i + 1) + int i))"
        bossType "[0..<nat bossCount]" spaced]
  by simp

lemma insertBosses_filter:
  "length (filter P (insertBosses bossCount spacing bossType spaced))
     = length (filter P spaced) + (if P bossType then nat bossCount else 0)"
  unfolding insertBosses_def Let_def
  using fold_splice_filter
    [of P "\<lambda>i spaced. nat (min (int (length spaced)) (spacing * (int i + 1) + int i))"
        bossType "[0..<nat bossCount]" spaced]
  by simp

lemma pick_mem: "array \<noteq> [] \<Longrightarrow> fst (pick array g) \<in> set array"
  by (simp add: pick_def split_def randomBelow_def)

lemma getAvailableBossTypes_boss:
  "enemyId \<in> set (getAvailableBossTypes this) \<Longrightarrow> bossArchetype this enemyId"
  by (auto simp: getAvailableBossTypes_def bossArchetype_def split: option.splits)

lemma getAvailableEnemyTypes_no_boss:
  assumes "\<not> bossArchetype this ''goblin''"
    and "enemyId \<in> set (getAvailableEnemyTypes this)"
  shows "\<not> bossArchetype this enemyId"
  using assms
  by (auto simp: getAvailableEnemyTypes_def bossArchetype_def Let_def
      split: option.splits if_splits)

lemma generateWaveComposition_plain:
  "\<not> (isBossWave \<and> length (getAvailableBossTypes this) > 0) \<Longrightarrow>
     generateWaveComposition this count availableTypes theme isBossWave g
       = generateThemedComposition this count availableTypes theme g"
  by (auto simp: generateWaveComposition_def Let_def)

lemma generateWaveComposition_boss:
  assumes "isBossWave" "length (getAvailableBossTypes this) > 0"
  shows "fst (generateWaveComposition this count availableTypes theme isBossWave g)
     = (let bossCount = min count (max 1 (currentWave this div 25));
            bossType = fst (pick (getAvailableBossTypes this) g);
            support = fst (generateThemedComposition this (max 0 (count - bossCount))
                        availableTypes BOSS_SUPPORT_THEME (snd (pick (getAvailableBossTypes this) g)))
        in if length support = 0 then replicate (nat bossCount) bossType
           else insertBosses bossCount (max 1 (int (length support) div (bossCount + 1)))
                  bossType support)"
  using assms by (simp add: generateWaveComposition_def Let_def split_def)

lemma generateWaveComposition_length:
  assumes "0 \<le> count"
  shows "length (fst (generateWaveComposition this count availableTypes theme isBossWave g))
           = nat count"
proof (cases "isBossWave \<and> length (getAvailableBossTypes this) > 0")
  case False
  show ?thesis
    unfolding generateWaveComposition_plain [OF False]
    by (rule generateThemedComposition_length [OF assms])
next
  case True
  define bossCount where "bossCount = min count (max 1 (currentWave this div 25))"
  define support where
    "support = fst (generateThemedComposition this (max 0 (count - bossCount)) availableTypes
        BOSS_SUPPORT_THEME (snd (pick (getAvailableBossTypes this) g)))"
  have ls: "length support = nat (max 0 (count - bossCount))"
    unfolding support_def by (rule generateThemedComposition_length) simp
  have bc: "0 \<le> bossCount" using assms by (simp add: bossCount_def)
  have le: "bossCount \<le> count" by (simp add: bossCount_def)
  have sum: "nat (max 0 (count - bossCount)) + nat bossCount = nat count"
    using le bc by linarith
  have "length (if length support = 0
          then replicate (nat bossCount) (fst (pick (getAvailableBossTypes this) g))
          else insertBosses bossCount (max 1 (int (length support) div (bossCount + 1)))
               (fst (pick (getAvailableBossTypes this) g)) support) = nat count"
  proof (cases "length support = 0")
    case True
    with ls sum show ?thesis by simp
  next
    case False
    with ls sum show ?thesis by (simp add: insertBosses_length)
  qed
  moreover from True have "isBossWave" "length (getAvailableBossTypes this) > 0"
    by simp_all
  ultimately show ?thesis
    unfolding generateWaveComposition_boss [OF \<open>isBossWave\<close> \<open>length (getAvailableBossTypes this) > 0\<close>]
      Let_def bossCount_def [symmetric] support_def [symmetric]
    by simp
qed

lemma generateWaveComposition_bosses:
  assumes nb: "\<forall>e \<in> set (if length availableTypes > 0 then availableTypes else [''goblin'']).
                 \<not> bossArchetype this e"
  shows "length (filter (bossArchetype this)
            (fst (generateWaveComposition this count availableTypes theme isBossWave g)))
         = (if isBossWave \<and> length (getAvailableBossTypes this) > 0
            then nat (min count (max 1 (currentWave this div 25))) else 0)"
proof (cases "isBossWave \<and> length (getAvailableBossTypes this) > 0")
  case False
  have "filter (bossArchetype this)
          (fst (generateThemedComposition this count availableTypes theme g)) = []"
    using generateThemedComposition_set [of this count availableTypes theme g] nb
    by (auto simp: filter_empty_conv)
  with False show ?thesis
    unfolding generateWaveComposition_plain [OF False] by auto
next
  case True
  define bossCount where "bossCount = min count (max 1 (currentWave this div 25))"
  define bossType where "bossType = fst (pick (getAvailableBossTypes this) g)"
  define support where
    "support = fst (generateThemedComposition this (max 0 (count - bossCount)) availableTypes
        BOSS_SUPPORT_THEME (snd (pick (getAvailableBossTypes this) g)))"
  have "bossType \<in> set (getAvailableBossTypes this)"
    unfolding bossType_def using True by (intro pick_mem) auto
  then have boss: "bossArchetype this bossType" by (rule getAvailableBossTypes_boss)
  have sup: "filter (bossArchetype this) support = []"
    unfolding support_def
    using generateThemedComposition_set
      [of this "max 0 (count - bossCount)" availableTypes BOSS_SUPPORT_THEME
          "snd (pick (getAvailableBossTypes this) g)"] nb
    by (auto simp: filter_empty_conv)
  have "length (filter (bossArchetype this)
        (if length support = 0 then replicate (nat bossCount) bossType
         else insertBosses bossCount (max 1 (int (length support) div (bossCount + 1)))
               bossType support)) = nat bossCount"
    using boss sup by (simp add: insertBosses_filter)
  moreover from True have "isBossWave" "length (getAvailableBossTypes this) > 0"
    by simp_all
  ultimately show ?thesis
    unfolding generateWaveComposition_boss [OF \<open>isBossWave\<close> \<open>length (getAvailableBossTypes this) > 0\<close>]
      Let_def bossCount_def [symmetric] bossType_def [symmetric] support_def [symmetric]
    by simp
qed

section \<open>Properties of the runtime\<close>

lemma scheduleSpawns_clock:
  "clock (scene (scheduleSpawns wc idx scaling gameSpeed this))
     = clock (scene this)
       @ map (spawnTimer scaling gameSpeed) (zip [idx..<idx + length wc] wc)"
proof (induction wc arbitrary: idx this)
  case Nil
  show ?case by simp
next
  case (Cons enemyType rest)
  have upt: "[idx..<idx + length (enemyType # rest)] = idx # [Suc idx..<Suc idx + length rest]"
    using upt_conv_Cons [of idx "idx + Suc (length rest)"] by simp
  show ?case
    unfolding upt
    by (simp add: Cons.IH delayedCall_def Let_def spawnTimer_def)
qed

lemma scheduleSpawns_spawnTimers:
  "spawnTimers (scheduleSpawns wc idx scaling gameSpeed this)
     = spawnTimers this
       @ [length (clock (scene this))..<length (clock (scene this)) + length wc]"
proof (induction wc arbitrary: idx this)
  case Nil
  show ?case by simp
next
  case (Cons enemyType rest)
  have upt: "[length (clock (scene this))..<length (clock (scene this)) + length (enemyType # rest)]
      = length (clock (scene this))
        # [Suc (length (clock (scene this)))..<Suc (length (clock (scene this))) + length rest]"
    using upt_conv_Cons [of "length (clock (scene this))"
        "length (clock (scene this)) + Suc (length rest)"] by simp
  show ?case
    unfolding upt
    by (simp add: Cons.IH delayedCall_def Let_def)
qed

lemma scheduleSpawns_other:
  "events (scene (scheduleSpawns wc idx scaling gameSpeed this)) = events (scene this)"
  "waveInProgress (scheduleSpawns wc idx scaling gameSpeed this) = waveInProgress this"
  "isSpawning (scheduleSpawns wc idx scaling gameSpeed this) = isSpawning this"
  "currentWave (scheduleSpawns wc idx scaling gameSpeed this) = currentWave this"
  "enemies (scheduleSpawns wc idx scaling gameSpeed this) = enemies this"
  "catalog (scheduleSpawns wc idx scaling gameSpeed this) = catalog this"
  by (induction wc arbitrary: idx this; simp add: delayedCall_def Let_def)+

lemma nth_middle_upt:
  "map ((!) (xs @ ys @ zs)) [length xs..<length xs + length ys] = ys"
  by (rule nth_equalityI) (simp_all add: nth_append)

lemma spawnTypes_map:
  "spawnTypes this ts
     = concat (map (\<lambda>ev. case callback ev of
                         Some (SpawnCallback enemyType scaling) \<Rightarrow> [enemyType]
                       | _ \<Rightarrow> [])
                 (map ((!) (clock (scene this))) ts))"
  by (simp add: spawnTypes_def o_def)

lemma spawnTypes_scheduled:
  assumes "clock (scene this) = c0 @ map (spawnTimer scaling gameSpeed) (zip ks wc) @ rest"
    and "length ks = length wc"
  shows "spawnTypes this [length c0..<length c0 + length wc] = wc"
proof -
  let ?es = "map (spawnTimer scaling gameSpeed) (zip ks wc)"
  have len: "length ?es = length wc" using assms(2) by simp
  have nth: "map ((!) (clock (scene this))) [length c0..<length c0 + length wc] = ?es"
    using nth_middle_upt [of c0 ?es rest] len assms(1) by simp
  have "spawnTypes this [length c0..<length c0 + length wc]
      = concat (map (\<lambda>ev. case callback ev of
                         Some (SpawnCallback enemyType scaling) \<Rightarrow> [enemyType]
                       | _ \<Rightarrow> []) ?es)"
    unfolding spawnTypes_map nth ..
  also have "\<dots> = concat (map (\<lambda>p. [snd p]) (zip ks wc))"
    by (simp add: spawnTimer_def split_def o_def)
  also have "\<dots> = map snd (zip ks wc)"
    by (induction "zip ks wc") simp_all
  also have "\<dots> = wc" using assms(2) by simp
  finally show ?thesis .
qed

lemma startNextWave_accepted:
  assumes "\<not> waveInProgress this0"
  shows "startNextWave gameSpeed this0 =
     (True,
      (let this2 = (enteredWave this0)\<lparr>scene :=
              emit (waveStarted (currentWave (enteredWave this0))) (scene (enteredWave this0)),
              random := snd (plannedComposition this0)\<rparr>;
           this3 = scheduleSpawns (fst (plannedComposition this0)) 0 (plannedScaling this0)
                     gameSpeed this2
       in this3\<lparr>scene := (scene this3)\<lparr>clock := clock (scene this3)
              @ [markerTimer (plannedScaling this0) gameSpeed
                   (length (fst (plannedComposition this0)))]\<rparr>\<rparr>))"
  using assms
  by (simp add: startNextWave_def Let_def split_def enteredWave_def plannedBossWave_def
      plannedTheme_def plannedScaling_def plannedComposition_def delayedCall_def markerTimer_def)

lemma startNextWave_clock:
  assumes "\<not> waveInProgress this0"
  shows "clock (scene (snd (startNextWave gameSpeed this0)))
     = clock (scene this0)
       @ map (spawnTimer (plannedScaling this0) gameSpeed)
           (zip [0..<length (fst (plannedComposition this0))] (fst (plannedComposition this0)))
       @ [markerTimer (plannedScaling this0) gameSpeed (length (fst (plannedComposition this0)))]"
  by (simp add: startNextWave_accepted [OF assms] Let_def scheduleSpawns_clock emit_def
      enteredWave_def)

lemma startNextWave_spawnTimers:
  assumes "\<not> waveInProgress this0"
  shows "spawnTimers (snd (startNextWave gameSpeed this0))
     = spawnTimers this0
       @ [length (clock (scene this0))..<
            length (clock (scene this0)) + length (fst (plannedComposition this0))]"
  by (simp add: startNextWave_accepted [OF assms] Let_def scheduleSpawns_spawnTimers emit_def
      enteredWave_def)

lemma startNextWave_spawnTypes:
  assumes "\<not> waveInProgress this0"
  shows "spawnTypes (snd (startNextWave gameSpeed this0))
           (newTimers this0 (snd (startNextWave gameSpeed this0)))
         = fst (plannedComposition this0)"
proof -
  have nt: "newTimers this0 (snd (startNextWave gameSpeed this0))
      = [length (clock (scene this0))..<
            length (clock (scene this0)) + length (fst (plannedComposition this0))]"
    by (simp add: newTimers_def startNextWave_spawnTimers [OF assms])
  show ?thesis
    unfolding nt
    by (rule spawnTypes_scheduled [OF startNextWave_clock [OF assms]]) simp
qed

lemma startNextWave_state:
  assumes "\<not> waveInProgress this0"
  shows "fst (startNextWave gameSpeed this0)"
    and "waveInProgress (snd (startNextWave gameSpeed this0))"
    and "isSpawning (snd (startNextWave gameSpeed this0))"
    and "currentWave (snd (startNextWave gameSpeed this0)) = currentWave this0 + 1"
    and "catalog (snd (startNextWave gameSpeed this0)) = catalog this0"
    and "enemies (snd (startNextWave gameSpeed this0)) = enemies this0"
  by (simp_all add: startNextWave_accepted [OF assms] Let_def scheduleSpawns_other enteredWave_def)

section \<open>The claims about the composition\<close>

lemma bossArchetype_catalog:
  "catalog a = catalog b \<Longrightarrow> bossArchetype a = bossArchetype b"
  by (simp add: bossArchetype_def fun_eq_iff)

lemma goblin_no_boss: "catalog this = ENEMY_CONFIGS \<Longrightarrow> \<not> bossArchetype this ''goblin''"
  by (simp add: bossArchetype_def ENEMY_CONFIGS_def mkEnemy_def isBoss_def)

lemma base_pool_no_boss:
  assumes "catalog this = ENEMY_CONFIGS"
  shows "\<forall>e \<in> set (if length (getAvailableEnemyTypes this) > 0
                     then getAvailableEnemyTypes this else [''goblin'']).
            \<not> bossArchetype this e"
  using getAvailableEnemyTypes_no_boss [OF goblin_no_boss [OF assms]] goblin_no_boss [OF assms]
  by auto

lemma planned_enemyCount:
  "enemyCount (plannedScaling this0)
     = \<lfloor>(5 + of_int (currentWave this0 + 1) * 1.5 + ln (of_int (currentWave this0 + 1) + 1) * 3)
          * enemyCountMultiplier this0\<rfloor>"
  by (simp add: plannedScaling_def getWaveScaling_def Let_def enteredWave_def)

lemma planned_bosses:
  assumes "catalog this0 = ENEMY_CONFIGS"
  shows "length (filter (bossArchetype this0) (fst (plannedComposition this0)))
     = (if (currentWave this0 + 1) mod 10 = 0 \<and> currentWave this0 + 1 > 0
           \<and> getAvailableBossTypes (this0\<lparr>currentWave := currentWave this0 + 1\<rparr>) \<noteq> []
        then nat (min (enemyCount (plannedScaling this0))
                      (max 1 ((currentWave this0 + 1) div 25)))
        else 0)"
proof -
  define this2 where "this2 = (enteredWave this0)\<lparr>scene :=
      emit (waveStarted (currentWave (enteredWave this0))) (scene (enteredWave this0))\<rparr>"
  have cat1: "catalog (enteredWave this0) = ENEMY_CONFIGS"
    using assms by (simp add: enteredWave_def)
  have b2: "bossArchetype this2 = bossArchetype this0"
    by (rule bossArchetype_catalog) (simp add: this2_def enteredWave_def)
  have b1: "bossArchetype (enteredWave this0) = bossArchetype this0"
    by (rule bossArchetype_catalog) (simp add: enteredWave_def)
  have nb: "\<forall>e \<in> set (if length (getAvailableEnemyTypes (enteredWave this0)) > 0
                     then getAvailableEnemyTypes (enteredWave this0) else [''goblin'']).
            \<not> bossArchetype this2 e"
    using base_pool_no_boss [OF cat1] unfolding b1 b2 .
  have ab: "getAvailableBossTypes this2
      = getAvailableBossTypes (this0\<lparr>currentWave := currentWave this0 + 1\<rparr>)"
    by (simp add: getAvailableBossTypes_def this2_def enteredWave_def)
  have cw: "currentWave this2 = currentWave this0 + 1"
    by (simp add: this2_def enteredWave_def)
  have pb: "plannedBossWave this0
      = ((currentWave this0 + 1) mod 10 = 0 \<and> currentWave this0 + 1 > 0)"
    by (simp add: plannedBossWave_def enteredWave_def)
  have "length (filter (bossArchetype this2) (fst (plannedComposition this0)))
     = (if plannedBossWave this0 \<and> length (getAvailableBossTypes this2) > 0
        then nat (min (enemyCount (plannedScaling this0)) (max 1 (currentWave this2 div 25)))
        else 0)"
    unfolding plannedComposition_def this2_def [symmetric]
    by (rule generateWaveComposition_bosses [OF nb])
  then show ?thesis
    unfolding b2 ab cw pb by simp
qed

text \<open>
  Claim C3. For every enemy count \<open>N \<ge> 0\<close>, every theme and every pool of available
  archetypes, the composed wave has exactly \<open>N\<close> entries, on the themed path and on
  the boss path with boss insertion alike (\<open>isBossWave\<close> is arbitrary), whatever the
  random draws are.
\<close>

theorem composed_wave_length:
  "0 \<le> count \<Longrightarrow>
     length (fst (generateThemedComposition this count availableTypes theme g)) = nat count
     \<and> length (fst (generateWaveComposition this count availableTypes theme isBossWave g))
         = nat count"
  by (simp add: generateThemedComposition_length generateWaveComposition_length)

theorem composed_wave_length_witness:
  "(0::int) \<le> 27
   \<and> length (fst (generateThemedComposition (enteredWave beforeWave10) 27
         (getAvailableEnemyTypes (enteredWave beforeWave10)) BOSS_SUPPORT_THEME zeroSupply)) = 27
   \<and> length (fst (generateWaveComposition (enteredWave beforeWave10) 27
         (getAvailableEnemyTypes (enteredWave beforeWave10)) BOSS_SUPPORT_THEME True zeroSupply))
       = 27"
  using composed_wave_length [of 27 "enteredWave beforeWave10"
      "getAvailableEnemyTypes (enteredWave beforeWave10)" BOSS_SUPPORT_THEME zeroSupply True]
  by simp

text \<open>
  Claim C4. When a wave is in progress, \<open>startNextWave\<close> returns false and the state
  it returns is the state it was given: the wave counter, the timers of the scene, the
  list of spawn timers and the log of emitted events are all unchanged.
\<close>

theorem startNextWave_rejected:
  "waveInProgress this \<Longrightarrow> startNextWave gameSpeed this = (False, this)"
  by (simp add: startNextWave_def)

theorem startNextWave_rejected_witness:
  "waveInProgress busySystem \<and> startNextWave 1 busySystem = (False, busySystem)"
proof -
  have w: "waveInProgress busySystem" by (simp add: busySystem_def)
  from startNextWave_rejected [OF w, of 1] w show ?thesis by simp
qed

text \<open>
  Claim C7, amended. Let \<open>w\<close> be the number of the wave that an accepted
  \<open>startNextWave\<close> starts. The spawns it schedules contain bosses only if
  \<open>w mod 10 = 0\<close> and \<open>w > 0\<close> and a boss archetype is unlocked, and then exactly
  \<open>min(enemyCount, max(1, floor(w / 25)))\<close> of them, where \<open>enemyCount\<close> is the
  scaled enemy count \<open>floor((5 + 1.5 w + 3 ln(w + 1)) * countMultiplier)\<close> (at least 0
  bosses): the count multiplier can lower the number of bosses below
  \<open>max(1, floor(w / 25))\<close>.
\<close>

theorem boss_wave_boss_count:
  assumes "\<not> waveInProgress this0" and "catalog this0 = ENEMY_CONFIGS"
  shows "length (filter (bossArchetype this0)
           (spawnTypes (snd (startNextWave gameSpeed this0))
              (newTimers this0 (snd (startNextWave gameSpeed this0)))))
     = (if (currentWave this0 + 1) mod 10 = 0 \<and> currentWave this0 + 1 > 0
           \<and> getAvailableBossTypes (this0\<lparr>currentWave := currentWave this0 + 1\<rparr>) \<noteq> []
        then nat (min \<lfloor>(5 + of_int (currentWave this0 + 1) * 1.5
                           + ln (of_int (currentWave this0 + 1) + 1) * 3)
                        * enemyCountMultiplier this0\<rfloor>
                      (max 1 ((currentWave this0 + 1) div 25)))
        else 0)"
  unfolding startNextWave_spawnTypes [OF assms(1)] planned_bosses [OF assms(2)]
    planned_enemyCount ..

lemma beforeWave10_bosses:
  "getAvailableBossTypes (beforeWave10\<lparr>currentWave := currentWave beforeWave10 + 1\<rparr>)
     = [''warlord'']"
  by (simp add: getAvailableBossTypes_def beforeWave10_def freshSystem_def
      new_WaveSystemV2_def ENEMY_CONFIGS_def mkEnemy_def isBoss_def)

theorem boss_wave_boss_count_witness:
  "\<not> waveInProgress beforeWave10 \<and> catalog beforeWave10 = ENEMY_CONFIGS
   \<and> length (filter (bossArchetype beforeWave10)
         (spawnTypes (snd (startNextWave 1 beforeWave10))
            (newTimers beforeWave10 (snd (startNextWave 1 beforeWave10))))) = 1"
proof -
  have idle: "\<not> waveInProgress beforeWave10"
    by (simp add: beforeWave10_def freshSystem_def new_WaveSystemV2_def)
  have cat: "catalog beforeWave10 = ENEMY_CONFIGS"
    by (simp add: beforeWave10_def freshSystem_def new_WaveSystemV2_def)
  have w: "currentWave beforeWave10 + 1 = 10"
    by (simp add: beforeWave10_def)
  have m: "enemyCountMultiplier beforeWave10 = 1"
    by (simp add: beforeWave10_def freshSystem_def new_WaveSystemV2_def battleConfig_def
        orElse_def)
  have "0 \<le> ln (11 :: real)" by simp
  then have "(1 :: real) \<le> (5 + 10 * 1.5 + ln (10 + 1) * 3) * 1" by simp
  then have c: "1 \<le> \<lfloor>(5 + 10 * 1.5 + ln (10 + 1) * 3) * (1 :: real)\<rfloor>"
    by (simp only: le_floor_iff of_int_1)
  have "length (filter (bossArchetype beforeWave10)
         (spawnTypes (snd (startNextWave 1 beforeWave10))
            (newTimers beforeWave10 (snd (startNextWave 1 beforeWave10)))))
      = nat (min \<lfloor>(5 + 10 * 1.5 + ln (10 + 1) * 3) * (1 :: real)\<rfloor> (max 1 (10 div 25)))"
    using boss_wave_boss_count [OF idle cat, of 1] beforeWave10_bosses
    unfolding w m by simp
  also have "\<dots> = 1" using c by simp
  finally show ?thesis using idle cat by simp
qed

text \<open>
  Claim C7 as stated fails for a count multiplier of 0: wave 10 is a boss wave and the
  Warlord is unlocked, but the scaled enemy count is 0, \<open>bossCount = min(0, 1) = 0\<close> and
  nothing is scheduled, although \<open>max(1, floor(10 / 25)) = 1\<close>.
\<close>

theorem boss_count_counterexample:
  "(currentWave beforeWave10_noCount + 1) mod 10 = 0
   \<and> currentWave beforeWave10_noCount + 1 > 0
   \<and> getAvailableBossTypes
        (beforeWave10_noCount\<lparr>currentWave := currentWave beforeWave10_noCount + 1\<rparr>)
       = [''warlord'']
   \<and> max 1 ((currentWave beforeWave10_noCount + 1) div 25) = 1
   \<and> spawnTypes (snd (startNextWave 1 beforeWave10_noCount))
        (newTimers beforeWave10_noCount (snd (startNextWave 1 beforeWave10_noCount))) = []"
proof -
  have idle: "\<not> waveInProgress beforeWave10_noCount"
    by (simp add: beforeWave10_noCount_def new_WaveSystemV2_def)
  have w: "currentWave beforeWave10_noCount + 1 = 10"
    by (simp add: beforeWave10_noCount_def)
  have m: "enemyCountMultiplier beforeWave10_noCount = 0"
    by (simp add: beforeWave10_noCount_def new_WaveSystemV2_def battleConfig_def orElse_def)
  have b: "getAvailableBossTypes
        (beforeWave10_noCount\<lparr>currentWave := currentWave beforeWave10_noCount + 1\<rparr>)
       = [''warlord'']"
    by (simp add: getAvailableBossTypes_def beforeWave10_noCount_def
        new_WaveSystemV2_def ENEMY_CONFIGS_def mkEnemy_def isBoss_def)
  have c: "enemyCount (plannedScaling beforeWave10_noCount) = 0"
    unfolding planned_enemyCount m by simp
  have "length (fst (plannedComposition beforeWave10_noCount)) = nat 0"
    unfolding plannedComposition_def c
    by (rule generateWaveComposition_length) simp
  then have "fst (plannedComposition beforeWave10_noCount) = []" by simp
  then have "spawnTypes (snd (startNextWave 1 beforeWave10_noCount))
        (newTimers beforeWave10_noCount (snd (startNextWave 1 beforeWave10_noCount))) = []"
    by (simp add: startNextWave_spawnTypes [OF idle])
  with b w show ?thesis by simp
qed

text \<open>
  Claim C9. On the game's catalog and for every wave number, no archetype of the
  regular pool returned by \<open>getAvailableEnemyTypes\<close> carries the tag \<open>boss\<close>, and every
  entry of the composition of a non-boss wave over that pool is a non-boss archetype.
\<close>

theorem regular_pool_has_no_boss:
  assumes "catalog this = ENEMY_CONFIGS"
  shows "(\<forall>enemyId \<in> set (getAvailableEnemyTypes this). \<not> bossArchetype this enemyId)
     \<and> (\<forall>enemyId \<in> set (fst (generateWaveComposition this count
                                 (getAvailableEnemyTypes this) theme False g)).
           \<not> bossArchetype this enemyId)"
proof
  show "\<forall>enemyId \<in> set (getAvailableEnemyTypes this). \<not> bossArchetype this enemyId"
    using getAvailableEnemyTypes_no_boss [OF goblin_no_boss [OF assms]] by blast
  have "set (fst (generateWaveComposition this count (getAvailableEnemyTypes this) theme False g))
      \<subseteq> set (if length (getAvailableEnemyTypes this) > 0
               then getAvailableEnemyTypes this else [''goblin''])"
    using generateThemedComposition_set [of this count "getAvailableEnemyTypes this" theme g]
    by (simp add: generateWaveComposition_plain)
  then show "\<forall>enemyId \<in> set (fst (generateWaveComposition this count
                                 (getAvailableEnemyTypes this) theme False g)).
           \<not> bossArchetype this enemyId"
    using base_pool_no_boss [OF assms] by blast
qed

text \<open>Wave 11: the Warlord is unlocked and is the one available boss archetype, and it
  is not among the seventeen archetypes of the regular pool; the wave's theme is
  Elemental Surge, and a composition of two entries over the regular pool consists of
  the two archers, neither of them a boss.\<close>

theorem regular_pool_has_no_boss_witness:
  "catalog inWave11 = ENEMY_CONFIGS
   \<and> getAvailableBossTypes inWave11 = [''warlord'']
   \<and> bossArchetype inWave11 ''warlord''
   \<and> getAvailableEnemyTypes inWave11
       = [''goblin'', ''tnt_runner'', ''barrel_bomber'', ''footman'', ''goblin_blue'',
          ''goblin_yellow'', ''tnt_runner_blue'', ''barrel_bomber_purple'', ''archer'',
          ''warrior'', ''rogue'', ''dark_knight'', ''berserker'', ''iron_guard'',
          ''elite_scout'', ''shadow_archer'', ''frost_archer'']
   \<and> ''warlord'' \<notin> set (getAvailableEnemyTypes inWave11)
   \<and> \<not> bossArchetype inWave11 ''iron_guard''
   \<and> fst (generateWaveComposition inWave11 2 (getAvailableEnemyTypes inWave11)
           (getWaveTheme inWave11 (getAvailableEnemyTypes inWave11) False) False zeroSupply)
       = [''frost_archer'', ''shadow_archer'']
   \<and> \<not> bossArchetype inWave11 ''frost_archer''
   \<and> \<not> bossArchetype inWave11 ''shadow_archer''"
proof -
  have cat: "catalog inWave11 = ENEMY_CONFIGS"
    by (simp add: inWave11_def freshSystem_def new_WaveSystemV2_def)
  have boss: "getAvailableBossTypes inWave11 = [''warlord'']"
    by (simp add: getAvailableBossTypes_def inWave11_def freshSystem_def new_WaveSystemV2_def
        ENEMY_CONFIGS_def mkEnemy_def isBoss_def)
  have wl: "bossArchetype inWave11 ''warlord''"
    by (simp add: bossArchetype_def isBoss_def cat ENEMY_CONFIGS_def mkEnemy_def)
  have pool: "getAvailableEnemyTypes inWave11
       = [''goblin'', ''tnt_runner'', ''barrel_bomber'', ''footman'', ''goblin_blue'',
          ''goblin_yellow'', ''tnt_runner_blue'', ''barrel_bomber_purple'', ''archer'',
          ''warrior'', ''rogue'', ''dark_knight'', ''berserker'', ''iron_guard'',
          ''elite_scout'', ''shadow_archer'', ''frost_archer'']"
    by (simp add: getAvailableEnemyTypes_def inWave11_def freshSystem_def new_WaveSystemV2_def
        ENEMY_CONFIGS_def mkEnemy_def isBoss_def)
  have wave: "fst (generateWaveComposition inWave11 2 (getAvailableEnemyTypes inWave11)
           (getWaveTheme inWave11 (getAvailableEnemyTypes inWave11) False) False zeroSupply)
       = [''frost_archer'', ''shadow_archer'']"
    by code_simp
  note t = regular_pool_has_no_boss [OF cat, of 2
      "getWaveTheme inWave11 (getAvailableEnemyTypes inWave11) False" zeroSupply]
  from t wl have nw: "''warlord'' \<notin> set (getAvailableEnemyTypes inWave11)" by blast
  from t pool have a: "\<not> bossArchetype inWave11 ''iron_guard''" by simp
  from t wave have b: "\<not> bossArchetype inWave11 ''frost_archer''"
    and c: "\<not> bossArchetype inWave11 ''shadow_archer''" by simp_all
  from cat boss wl pool nw wave a b c show ?thesis by blast
qed

section \<open>The claims about counts, scaling and spawning\<close>

lemma fl_le_of_int:
  assumes "x \<le> of_int n" "0 \<le> n" "n < 2 ^ 53"
  shows "fl x \<le> of_int n"
  using fl_mono [OF assms(1)] fl_of_int [OF assms(2,3)] by simp

lemma fl_le_1: "x \<le> 1 \<Longrightarrow> fl x \<le> 1"
  using fl_mono [of x 1] fl_1 by simp

text \<open>The floor of a share of a count: not negative, and not above the count when the
  ratio is at most 1.\<close>

lemma floor_share_nonneg:
  assumes "0 \<le> (t :: int)" "0 \<le> r"
  shows "0 \<le> \<lfloor>fmul (of_int t) r\<rfloor>"
proof -
  have "0 \<le> fl (of_int t) * fl r"
    using assms by (intro mult_nonneg_nonneg fl_nonneg) simp_all
  hence "0 \<le> fmul (of_int t) r" unfolding fmul_def by (rule fl_nonneg)
  thus ?thesis by simp
qed

lemma floor_share_le:
  assumes "0 \<le> (t :: int)" "t < 2 ^ 53" "0 \<le> r" "r \<le> 1"
  shows "\<lfloor>fmul (of_int t) r\<rfloor> \<le> t"
proof -
  have ft: "fl (of_int t) = of_int t" by (rule fl_of_int [OF assms(1,2)])
  have "fl r \<le> 1" by (rule fl_le_1 [OF assms(4)])
  hence "of_int t * fl r \<le> of_int t * 1"
    using assms(1) by (intro mult_left_mono) simp_all
  hence "of_int t * fl r \<le> of_int t" by simp
  hence "fl (of_int t * fl r) \<le> of_int t" by (rule fl_le_of_int [OF _ assms(1,2)])
  hence "fmul (of_int t) r \<le> of_int t" unfolding fmul_def ft .
  hence "\<lfloor>fmul (of_int t) r\<rfloor> \<le> \<lfloor>real_of_int t\<rfloor>" by (rule floor_mono)
  thus ?thesis by simp
qed

text \<open>The normalised ratios of non-negative ratios lie between 0 and 1.\<close>

lemma normalized_shares:
  assumes "0 \<le> f" "0 \<le> s" "0 \<le> w"
  defines "R \<equiv> fadd (fadd f s) w"
  shows "0 \<le> (if R > 0 then fdiv f R else 1)" "(if R > 0 then fdiv f R else 1) \<le> 1"
    "0 \<le> (if R > 0 then fdiv s R else 0)"
proof -
  have f': "0 \<le> fl f" and s': "0 \<le> fl s" and w': "0 \<le> fl w"
    using assms(1-3) by (simp_all add: fl_nonneg)
  define A where "A = fadd f s"
  have "fl (fl f) \<le> fl (fl f + fl s)" using s' by (intro fl_mono) simp
  hence fA: "fl f \<le> A" unfolding A_def fadd_def fl_idem .
  have A0: "0 \<le> A" using fA f' by simp
  have flA: "fl A = A" unfolding A_def fadd_def by (rule fl_idem)
  have "fl A \<le> fl (fl A + fl w)" using w' fl_mono [of "fl A" "fl A + fl w"]
    by (simp add: fl_idem)
  hence AR: "A \<le> R" unfolding R_def A_def [symmetric] fadd_def [of A w] flA .
  have flR: "fl R = R" unfolding R_def fadd_def [of _ w] by (rule fl_idem)
  have fR: "fl f \<le> R" using fA AR by simp
  have R0: "0 \<le> R" using A0 AR by simp
  show "0 \<le> (if R > 0 then fdiv f R else 1)"
    unfolding fdiv_def flR using f' R0 by (simp add: fl_nonneg)
  show "(if R > 0 then fdiv f R else 1) \<le> 1"
  proof (cases "R > 0")
    case True
    have "fl f / R \<le> 1" using fR True by simp
    thus ?thesis unfolding fdiv_def flR using True by (simp add: fl_le_1)
  next
    case False
    thus ?thesis by simp
  qed
  show "0 \<le> (if R > 0 then fdiv s R else 0)"
    unfolding fdiv_def flR using s' R0 by (simp add: fl_nonneg)
qed

lemma allocateThemeCounts_unfold:
  "allocateThemeCounts total' theme =
    (let R = fadd (fadd (focusRatio theme) (supportRatio theme)) (wildcardRatio theme);
         f0 = \<lfloor>fmul (of_int total') (if R > 0 then fdiv (focusRatio theme) R else 1)\<rfloor>;
         s0 = \<lfloor>fmul (of_int total') (if R > 0 then fdiv (supportRatio theme) R else 0)\<rfloor>;
         f1 = (if total' > 0 \<and> f0 = 0 then 1 else f0);
         w1 = total' - f1 - s0
     in \<lparr>focusCount = (if w1 < 0 \<and> s0 \<le> 0 then total' else f1),
         supportCount = (if w1 < 0 \<and> s0 > 0 then total' - f1 else s0),
         wildcardCount = (if w1 < 0 then 0 else w1)\<rparr>)"
  by (simp add: allocateThemeCounts_def Let_def)

text \<open>
  Claim C5, amended. With the three ratios divided by their sum, the focus and the
  support count are the floors of their shares of the total, the focus count is raised
  to 1 when the total is positive and its floor is 0, and the wildcard count is what is
  left, \<open>total - focus - support\<close>: the rounding remainder goes to the wildcard count. A
  negative wildcard count becomes 0 by borrowing from support when the support count is
  positive (\<open>support = total - focus\<close>), otherwise from focus (\<open>focus = total\<close>). The
  sums, quotients and products are those of the doubles. For non-negative ratios and a
  total from 0 to below \<open>2 ^ 53\<close> only support is ever borrowed from, and the three
  counts are non-negative and sum to the total.
\<close>

theorem theme_counts:
  "(let R = fadd (fadd (focusRatio theme) (supportRatio theme)) (wildcardRatio theme);
        f0 = \<lfloor>fmul (of_int total') (if R > 0 then fdiv (focusRatio theme) R else 1)\<rfloor>;
        s0 = \<lfloor>fmul (of_int total') (if R > 0 then fdiv (supportRatio theme) R else 0)\<rfloor>;
        f1 = (if total' > 0 \<and> f0 = 0 then 1 else f0);
        w1 = total' - f1 - s0;
        a = allocateThemeCounts total' theme
    in focusCount a = (if w1 < 0 \<and> s0 \<le> 0 then total' else f1)
       \<and> supportCount a = (if w1 < 0 \<and> s0 > 0 then total' - f1 else s0)
       \<and> wildcardCount a = (if w1 < 0 then 0 else w1)
       \<and> (0 \<le> focusRatio theme \<and> 0 \<le> supportRatio theme \<and> 0 \<le> wildcardRatio theme
            \<and> 0 \<le> total' \<and> total' < 2 ^ 53 \<longrightarrow>
            focusCount a = f1
            \<and> supportCount a = min s0 (total' - f1)
            \<and> wildcardCount a = total' - focusCount a - supportCount a
            \<and> (total' > 0 \<longrightarrow> 1 \<le> focusCount a)
            \<and> 0 \<le> focusCount a \<and> 0 \<le> supportCount a \<and> 0 \<le> wildcardCount a
            \<and> focusCount a + supportCount a + wildcardCount a = total'))"
proof -
  define R where "R = fadd (fadd (focusRatio theme) (supportRatio theme)) (wildcardRatio theme)"
  define fr where "fr = (if R > 0 then fdiv (focusRatio theme) R else 1)"
  define sr where "sr = (if R > 0 then fdiv (supportRatio theme) R else 0)"
  define f0 where "f0 = \<lfloor>fmul (of_int total') fr\<rfloor>"
  define s0 where "s0 = \<lfloor>fmul (of_int total') sr\<rfloor>"
  define f1 where "f1 = (if total' > 0 \<and> f0 = 0 then 1 else f0)"
  define w1 where "w1 = total' - f1 - s0"
  define a where "a = allocateThemeCounts total' theme"
  have a: "a = \<lparr>focusCount = (if w1 < 0 \<and> s0 \<le> 0 then total' else f1),
         supportCount = (if w1 < 0 \<and> s0 > 0 then total' - f1 else s0),
         wildcardCount = (if w1 < 0 then 0 else w1)\<rparr>"
    unfolding a_def allocateThemeCounts_unfold Let_def
      R_def [symmetric] fr_def [symmetric] sr_def [symmetric] f0_def [symmetric]
      s0_def [symmetric] f1_def [symmetric] w1_def [symmetric] ..
  have part1: "focusCount a = (if w1 < 0 \<and> s0 \<le> 0 then total' else f1)
       \<and> supportCount a = (if w1 < 0 \<and> s0 > 0 then total' - f1 else s0)
       \<and> wildcardCount a = (if w1 < 0 then 0 else w1)"
    by (simp add: a)
  have part2: "focusCount a = f1
            \<and> supportCount a = min s0 (total' - f1)
            \<and> wildcardCount a = total' - focusCount a - supportCount a
            \<and> (total' > 0 \<longrightarrow> 1 \<le> focusCount a)
            \<and> 0 \<le> focusCount a \<and> 0 \<le> supportCount a \<and> 0 \<le> wildcardCount a
            \<and> focusCount a + supportCount a + wildcardCount a = total'"
    if nn: "0 \<le> focusRatio theme" "0 \<le> supportRatio theme" "0 \<le> wildcardRatio theme"
      and t: "0 \<le> total'" "total' < 2 ^ 53"
  proof -
    note ns = normalized_shares [OF nn, folded R_def]
    have fr0: "0 \<le> fr" and fr1: "fr \<le> 1" and sr0: "0 \<le> sr"
      using ns by (simp_all add: fr_def sr_def)
    have f0: "0 \<le> f0" unfolding f0_def by (rule floor_share_nonneg [OF t(1) fr0])
    have f0t: "f0 \<le> total'" unfolding f0_def by (rule floor_share_le [OF t fr0 fr1])
    have s0: "0 \<le> s0" unfolding s0_def by (rule floor_share_nonneg [OF t(1) sr0])
    have f1: "0 \<le> f1" "f1 \<le> total'" "total' > 0 \<longrightarrow> 1 \<le> f1"
      using f0 f0t t(1) by (auto simp: f1_def)
    have borrow: "\<not> (w1 < 0 \<and> s0 \<le> 0)"
      using f1 s0 by (auto simp: w1_def)
    show ?thesis
      using f1 s0 borrow by (auto simp: a w1_def min_def)
  qed
  show ?thesis
    unfolding Let_def
    unfolding R_def [symmetric] fr_def [symmetric] sr_def [symmetric] f0_def [symmetric]
      s0_def [symmetric] f1_def [symmetric] w1_def [symmetric] a_def [symmetric]
    using part1 part2 by blast
qed

lemma beast_tank_theme:
  "focusRatio (WAVE_THEME_CYCLE ! 4) = 0.55" "supportRatio (WAVE_THEME_CYCLE ! 4) = 0.25"
  "wildcardRatio (WAVE_THEME_CYCLE ! 4) = 0.2"
  by (simp_all add: WAVE_THEME_CYCLE_def mkTheme_def)

lemma beast_tank_counts:
  "allocateThemeCounts 10 (WAVE_THEME_CYCLE ! 4)
     = \<lparr>focusCount = 5, supportCount = 2, wildcardCount = 3\<rparr>"
  by code_simp

lemma swarm_mix_theme:
  "focusRatio (snd (EARLY_WAVE_THEMES ! 1)) = 0.7" "supportRatio (snd (EARLY_WAVE_THEMES ! 1)) = 0.3"
  "wildcardRatio (snd (EARLY_WAVE_THEMES ! 1)) = 0"
  by (simp_all add: EARLY_WAVE_THEMES_def mkTheme_def)

lemma swarm_mix_counts:
  "allocateThemeCounts 90 (snd (EARLY_WAVE_THEMES ! 1))
     = \<lparr>focusCount = 62, supportCount = 27, wildcardCount = 1\<rparr>"
  by code_simp

text \<open>The Beast Tank theme (ratios 0.55, 0.25 and 0.2) with 10 enemies: 5 focus,
  2 support and 3 wildcard. The Swarm Mix theme (ratios 0.7, 0.3 and 0) with 90 enemies:
  62 focus, the double product \<open>90 * 0.7\<close> being just below 63, 27 support and
  1 wildcard.\<close>

theorem theme_counts_witness:
  "0 \<le> focusRatio (WAVE_THEME_CYCLE ! 4) \<and> 0 \<le> supportRatio (WAVE_THEME_CYCLE ! 4)
   \<and> 0 \<le> wildcardRatio (WAVE_THEME_CYCLE ! 4) \<and> (0::int) \<le> 10 \<and> (10::int) < 2 ^ 53
   \<and> (0::int) < 10
   \<and> focusCount (allocateThemeCounts 10 (WAVE_THEME_CYCLE ! 4)) = 5
   \<and> supportCount (allocateThemeCounts 10 (WAVE_THEME_CYCLE ! 4)) = 2
   \<and> wildcardCount (allocateThemeCounts 10 (WAVE_THEME_CYCLE ! 4)) = 3
   \<and> focusCount (allocateThemeCounts 10 (WAVE_THEME_CYCLE ! 4))
       + supportCount (allocateThemeCounts 10 (WAVE_THEME_CYCLE ! 4))
       + wildcardCount (allocateThemeCounts 10 (WAVE_THEME_CYCLE ! 4)) = 10
   \<and> 0 \<le> focusRatio (snd (EARLY_WAVE_THEMES ! 1)) \<and> 0 \<le> supportRatio (snd (EARLY_WAVE_THEMES ! 1))
   \<and> 0 \<le> wildcardRatio (snd (EARLY_WAVE_THEMES ! 1)) \<and> (0::int) \<le> 90 \<and> (90::int) < 2 ^ 53
   \<and> focusCount (allocateThemeCounts 90 (snd (EARLY_WAVE_THEMES ! 1))) = 62
   \<and> supportCount (allocateThemeCounts 90 (snd (EARLY_WAVE_THEMES ! 1))) = 27
   \<and> wildcardCount (allocateThemeCounts 90 (snd (EARLY_WAVE_THEMES ! 1))) = 1
   \<and> focusCount (allocateThemeCounts 90 (snd (EARLY_WAVE_THEMES ! 1)))
       + supportCount (allocateThemeCounts 90 (snd (EARLY_WAVE_THEMES ! 1)))
       + wildcardCount (allocateThemeCounts 90 (snd (EARLY_WAVE_THEMES ! 1))) = 90"
proof -
  have h1: "0 \<le> focusRatio (WAVE_THEME_CYCLE ! 4) \<and> 0 \<le> supportRatio (WAVE_THEME_CYCLE ! 4)
      \<and> 0 \<le> wildcardRatio (WAVE_THEME_CYCLE ! 4) \<and> (0::int) \<le> 10 \<and> (10::int) < 2 ^ 53"
    unfolding beast_tank_theme by simp
  have h2: "0 \<le> focusRatio (snd (EARLY_WAVE_THEMES ! 1))
      \<and> 0 \<le> supportRatio (snd (EARLY_WAVE_THEMES ! 1))
      \<and> 0 \<le> wildcardRatio (snd (EARLY_WAVE_THEMES ! 1)) \<and> (0::int) \<le> 90 \<and> (90::int) < 2 ^ 53"
    unfolding swarm_mix_theme by simp
  from theme_counts [of "WAVE_THEME_CYCLE ! 4" 10] h1
  have s1: "focusCount (allocateThemeCounts 10 (WAVE_THEME_CYCLE ! 4))
       + supportCount (allocateThemeCounts 10 (WAVE_THEME_CYCLE ! 4))
       + wildcardCount (allocateThemeCounts 10 (WAVE_THEME_CYCLE ! 4)) = 10"
    unfolding Let_def by blast
  from theme_counts [of "snd (EARLY_WAVE_THEMES ! 1)" 90] h2
  have s2: "focusCount (allocateThemeCounts 90 (snd (EARLY_WAVE_THEMES ! 1)))
       + supportCount (allocateThemeCounts 90 (snd (EARLY_WAVE_THEMES ! 1)))
       + wildcardCount (allocateThemeCounts 90 (snd (EARLY_WAVE_THEMES ! 1))) = 90"
    unfolding Let_def by blast
  show ?thesis
    using h1 h2 s1 s2 unfolding beast_tank_counts swarm_mix_counts by simp
qed

text \<open>
  Claim C5 as stated fails on the rounding remainder. For the Beast Tank theme and 10
  enemies the floors of the three shares are 5, 2 and 2; the claim gives the remaining
  unit to the focus count (6 focus, 2 wildcard), the code gives it to the wildcard
  count (5 focus, 3 wildcard).
\<close>

theorem remainder_to_focus_counterexample:
  "focusCount (allocateThemeCounts 10 (WAVE_THEME_CYCLE ! 4))
      \<noteq> 10 - \<lfloor>10 * supportRatio (WAVE_THEME_CYCLE ! 4)\<rfloor>
             - \<lfloor>10 * wildcardRatio (WAVE_THEME_CYCLE ! 4)\<rfloor>
   \<and> focusCount (allocateThemeCounts 10 (WAVE_THEME_CYCLE ! 4))
      = \<lfloor>10 * focusRatio (WAVE_THEME_CYCLE ! 4)\<rfloor>
   \<and> wildcardCount (allocateThemeCounts 10 (WAVE_THEME_CYCLE ! 4))
      = \<lfloor>10 * wildcardRatio (WAVE_THEME_CYCLE ! 4)\<rfloor> + 1"
  unfolding beast_tank_counts beast_tank_theme by simp

text \<open>
  Claim C8, amended. With a theme, the spawn interval is
  \<open>max(280, round(max(300, 800 - 30 * wave) * theme.spawnIntervalMultiplier))\<close>: the only
  bound applied after the theme adjustment is the floor of 280 ms. Without a theme it is
  \<open>max(300, 800 - 30 * wave)\<close>.
\<close>

theorem spawn_interval:
  "spawnInterval (getWaveScaling this (Some theme))
     = max 280 (round_half_up (of_int (max 300 (800 - currentWave this * 30))
                                * spawnIntervalMultiplier theme))
   \<and> spawnInterval (getWaveScaling this None) = max 300 (800 - currentWave this * 30)
   \<and> 280 \<le> spawnInterval (getWaveScaling this (Some theme))"
  by (simp add: getWaveScaling_def Let_def)

text \<open>
  Claim C8 as stated fails in wave 21, whose theme is Swarm Pressure with the multiplier
  0.92: \<open>round(300 * 0.92) = 276\<close>, so the code yields 280 where the claimed formula
  \<open>max(300, round(...))\<close> yields 300.
\<close>

theorem spawn_interval_counterexample:
  "getWaveTheme inWave21 (getAvailableEnemyTypes inWave21) False = WAVE_THEME_CYCLE ! 0
   \<and> spawnInterval (getWaveScaling inWave21 (Some (WAVE_THEME_CYCLE ! 0))) = 280
   \<and> spawnInterval (getWaveScaling inWave21 (Some (WAVE_THEME_CYCLE ! 0)))
      \<noteq> max 300 (round_half_up (of_int (max 300 (800 - currentWave inWave21 * 30))
                                  * spawnIntervalMultiplier (WAVE_THEME_CYCLE ! 0)))"
proof -
  have th: "getWaveTheme inWave21 (getAvailableEnemyTypes inWave21) False = WAVE_THEME_CYCLE ! 0"
    by (simp add: getWaveTheme_def getUnlockTheme_def getNewEnemyTypesForWave_def
        EARLY_WAVE_THEMES_def WAVE_THEME_CYCLE_def inWave21_def freshSystem_def
        new_WaveSystemV2_def ENEMY_CONFIGS_def mkEnemy_def Let_def)
  have m: "spawnIntervalMultiplier (WAVE_THEME_CYCLE ! 0) = 0.92"
    by (simp add: WAVE_THEME_CYCLE_def mkTheme_def)
  have w: "currentWave inWave21 = 21" by (simp add: inWave21_def)
  have v: "spawnInterval (getWaveScaling inWave21 (Some (WAVE_THEME_CYCLE ! 0))) = 280"
    by (simp add: getWaveScaling_def Let_def m w round_half_up_def)
  have c: "max 300 (round_half_up (of_int (max 300 (800 - currentWave inWave21 * 30))
                                  * spawnIntervalMultiplier (WAVE_THEME_CYCLE ! 0))) = 300"
    by (simp add: m w round_half_up_def)
  show ?thesis unfolding c using th v by simp
qed

text \<open>
  Claim C10. A spawned unit is constructed from a copy of the archetype's entry in which
  health, speed and reward are replaced by the floors of the base values times the
  scaling multipliers (the products of the doubles), all other fields being those of
  the entry; the unit is appended to the active units and the catalog is the same
  afterwards. When the catalog has no entry for the type, the fallback unit gets the
  floors of 30, 80 and 10 times the multipliers.
\<close>

theorem spawned_unit_stats:
  "(map_of (catalog this) enemyType = Some baseConfig \<longrightarrow>
      enemies (spawnEnemy enemyType scaling this)
         = enemies this @ [last (enemies (spawnEnemy enemyType scaling this))]
      \<and> config (last (enemies (spawnEnemy enemyType scaling this)))
         = baseConfig\<lparr>health := of_int \<lfloor>fmul (health baseConfig) (healthMultiplier scaling)\<rfloor>,
                       speed := of_int \<lfloor>fmul (speed baseConfig) (speedMultiplier scaling)\<rfloor>,
                       reward := of_int \<lfloor>fmul (reward baseConfig) (rewardMultiplier scaling)\<rfloor>\<rparr>
      \<and> catalog (spawnEnemy enemyType scaling this) = catalog this)
   \<and> (map_of (catalog this) enemyType = None \<longrightarrow>
      enemies (spawnEnemy enemyType scaling this)
         = enemies this @ [last (enemies (spawnEnemy enemyType scaling this))]
      \<and> health (config (last (enemies (spawnEnemy enemyType scaling this))))
         = of_int \<lfloor>fmul 30 (healthMultiplier scaling)\<rfloor>
      \<and> speed (config (last (enemies (spawnEnemy enemyType scaling this))))
         = of_int \<lfloor>fmul 80 (speedMultiplier scaling)\<rfloor>
      \<and> reward (config (last (enemies (spawnEnemy enemyType scaling this))))
         = of_int \<lfloor>fmul 10 (rewardMultiplier scaling)\<rfloor>
      \<and> catalog (spawnEnemy enemyType scaling this) = catalog this)"
  by (simp add: spawnEnemy_def spawnFallbackEnemy_def new_EnemyUnit_def Let_def split_def)

lemma example_products:
  "\<lfloor>fmul 40 (healthMultiplier exampleScaling)\<rfloor> = 51"
  "\<lfloor>fmul 45 (speedMultiplier exampleScaling)\<rfloor> = 62"
  "\<lfloor>fmul 8 (rewardMultiplier exampleScaling)\<rfloor> = 5"
  "\<lfloor>fmul 30 (healthMultiplier exampleScaling)\<rfloor> = 38"
  "\<lfloor>fmul 80 (speedMultiplier exampleScaling)\<rfloor> = 112"
  "\<lfloor>fmul 10 (rewardMultiplier exampleScaling)\<rfloor> = 7"
  by code_simp+

text \<open>A goblin (health 40, speed 45, reward 8) spawned with the multipliers 1.29, 1.4
  and 0.72 has health 51, speed 62, the double product \<open>45 * 1.4\<close> being just below
  63, and reward 5, while the catalog still lists 40, 45 and 8; an unknown type yields
  the fallback unit with 38, 112 and 7.\<close>

theorem spawned_unit_stats_witness:
  "map_of (catalog inWave1) ''goblin''
     = Some (snd (mkEnemy ''goblin'' ''Torch Goblin'' ''torch_goblin'' 40 45 1 8 0.5 [SWARM] 1
                    [''light'', ''swarm''] ''torch_goblin_walk'' None))
   \<and> health (config (last (enemies (spawnEnemy ''goblin'' exampleScaling inWave1)))) = 51
   \<and> speed (config (last (enemies (spawnEnemy ''goblin'' exampleScaling inWave1)))) = 62
   \<and> reward (config (last (enemies (spawnEnemy ''goblin'' exampleScaling inWave1)))) = 5
   \<and> name (config (last (enemies (spawnEnemy ''goblin'' exampleScaling inWave1))))
       = ''Torch Goblin''
   \<and> map_of (catalog (spawnEnemy ''goblin'' exampleScaling inWave1)) ''goblin''
     = Some (snd (mkEnemy ''goblin'' ''Torch Goblin'' ''torch_goblin'' 40 45 1 8 0.5 [SWARM] 1
                    [''light'', ''swarm''] ''torch_goblin_walk'' None))
   \<and> map_of (catalog inWave1) ''ogre'' = None
   \<and> health (config (last (enemies (spawnEnemy ''ogre'' exampleScaling inWave1)))) = 38
   \<and> speed (config (last (enemies (spawnEnemy ''ogre'' exampleScaling inWave1)))) = 112
   \<and> reward (config (last (enemies (spawnEnemy ''ogre'' exampleScaling inWave1)))) = 7"
proof -
  let ?G = "snd (mkEnemy ''goblin'' ''Torch Goblin'' ''torch_goblin'' 40 45 1 8 0.5 [SWARM] 1
                    [''light'', ''swarm''] ''torch_goblin_walk'' None)"
  have g: "map_of (catalog inWave1) ''goblin'' = Some ?G"
    by (simp add: inWave1_def freshSystem_def new_WaveSystemV2_def ENEMY_CONFIGS_def mkEnemy_def)
  have o: "map_of (catalog inWave1) ''ogre'' = None"
    by (simp add: inWave1_def freshSystem_def new_WaveSystemV2_def ENEMY_CONFIGS_def mkEnemy_def)
  note tg = spawned_unit_stats [of inWave1 "''goblin''" ?G exampleScaling]
  note to = spawned_unit_stats [of inWave1 "''ogre''" ?G exampleScaling]
  from tg g have cfg: "config (last (enemies (spawnEnemy ''goblin'' exampleScaling inWave1)))
      = ?G\<lparr>health := of_int \<lfloor>fmul (health ?G) (healthMultiplier exampleScaling)\<rfloor>,
            speed := of_int \<lfloor>fmul (speed ?G) (speedMultiplier exampleScaling)\<rfloor>,
            reward := of_int \<lfloor>fmul (reward ?G) (rewardMultiplier exampleScaling)\<rfloor>\<rparr>"
    and cat: "catalog (spawnEnemy ''goblin'' exampleScaling inWave1) = catalog inWave1"
    by blast+
  have g1: "health (config (last (enemies (spawnEnemy ''goblin'' exampleScaling inWave1)))) = 51"
    unfolding cfg by (simp add: mkEnemy_def example_products)
  have g2: "speed (config (last (enemies (spawnEnemy ''goblin'' exampleScaling inWave1)))) = 62"
    unfolding cfg by (simp add: mkEnemy_def example_products)
  have g3: "reward (config (last (enemies (spawnEnemy ''goblin'' exampleScaling inWave1)))) = 5"
    unfolding cfg by (simp add: mkEnemy_def example_products)
  have g4: "name (config (last (enemies (spawnEnemy ''goblin'' exampleScaling inWave1))))
      = ''Torch Goblin''"
    unfolding cfg by (simp add: mkEnemy_def)
  from to o have
    "health (config (last (enemies (spawnEnemy ''ogre'' exampleScaling inWave1))))
       = of_int \<lfloor>fmul 30 (healthMultiplier exampleScaling)\<rfloor>"
    "speed (config (last (enemies (spawnEnemy ''ogre'' exampleScaling inWave1))))
       = of_int \<lfloor>fmul 80 (speedMultiplier exampleScaling)\<rfloor>"
    "reward (config (last (enemies (spawnEnemy ''ogre'' exampleScaling inWave1))))
       = of_int \<lfloor>fmul 10 (rewardMultiplier exampleScaling)\<rfloor>"
    by blast+
  then have f: "health (config (last (enemies (spawnEnemy ''ogre'' exampleScaling inWave1)))) = 38"
    "speed (config (last (enemies (spawnEnemy ''ogre'' exampleScaling inWave1)))) = 112"
    "reward (config (last (enemies (spawnEnemy ''ogre'' exampleScaling inWave1)))) = 7"
    by (simp_all add: example_products)
  show ?thesis
    using g o g1 g2 g3 g4 f unfolding cat by blast
qed

section \<open>The completion marker\<close>

lemma fold_setPaused_length:
  "length (clock (fold (setPaused b) ts sc)) = length (clock sc)"
  by (induction ts arbitrary: sc) (simp_all add: setPaused_def)

lemma fold_setPaused_other:
  "i \<notin> set ts \<Longrightarrow> clock (fold (setPaused b) ts sc) ! i = clock sc ! i"
  by (induction ts arbitrary: sc) (simp_all add: setPaused_def)

lemma fold_destroyTimer_length:
  "length (clock (fold destroyTimer ts sc)) = length (clock sc)"
  by (induction ts arbitrary: sc) (simp_all add: destroyTimer_def)

lemma fold_destroyTimer_other:
  "i \<notin> set ts \<Longrightarrow> clock (fold destroyTimer ts sc) ! i = clock sc ! i"
  by (induction ts arbitrary: sc) (simp_all add: destroyTimer_def)

lemma destroyTimer_nth:
  "t < length (clock sc) \<Longrightarrow> callback (clock (destroyTimer t sc) ! t) = None"
  by (simp add: destroyTimer_def)

lemma destroyTimer_length: "length (clock (destroyTimer t sc)) = length (clock sc)"
  by (simp add: destroyTimer_def)

lemma fold_destroyTimer_destroyed:
  "i \<in> set ts \<Longrightarrow> i < length (clock sc) \<Longrightarrow> callback (clock (fold destroyTimer ts sc) ! i) = None"
proof (induction ts arbitrary: sc)
  case Nil
  then show ?case by simp
next
  case (Cons t ts)
  show ?case
  proof (cases "i \<in> set ts")
    case True
    then show ?thesis using Cons.IH [of "destroyTimer t sc"] Cons.prems
      by (simp add: destroyTimer_length)
  next
    case False
    with Cons.prems have it: "i = t" by simp
    have "clock (fold destroyTimer ts (destroyTimer t sc)) ! i = clock (destroyTimer t sc) ! i"
      using False by (rule fold_destroyTimer_other)
    then show ?thesis
      using it Cons.prems by (simp add: destroyTimer_nth)
  qed
qed

lemma clockLoop_append:
  "clockLoop delta (xs @ ys) this = clockLoop delta ys (clockLoop delta xs this)"
  by (induction xs arbitrary: this) (simp_all add: Let_def split: option.splits)

lemma clockLoop_inert:
  assumes "\<forall>i \<in> set is. callback (clock (scene this) ! i) = None"
  shows "\<exists>cl. clockLoop delta is this = this\<lparr>scene := (scene this)\<lparr>clock := cl\<rparr>\<rparr>
            \<and> length cl = length (clock (scene this))
            \<and> (\<forall>j. j \<notin> set is \<longrightarrow> cl ! j = clock (scene this) ! j)"
  using assms
proof (induction "is" arbitrary: this)
  case Nil
  have "this = this\<lparr>scene := (scene this)\<lparr>clock := clock (scene this)\<rparr>\<rparr>" by simp
  then show ?case by (metis clockLoop.simps(1))
next
  case (Cons i rest)
  let ?cl0 = "clock (scene this)"
  let ?ev = "?cl0 ! i"
  have none: "callback ?ev = None" using Cons.prems by simp
  show ?case
  proof (cases "paused ?ev")
    case True
    from Cons.IH [of this] Cons.prems obtain cl where
      "clockLoop delta rest this = this\<lparr>scene := (scene this)\<lparr>clock := cl\<rparr>\<rparr>"
      "length cl = length ?cl0" "\<forall>j. j \<notin> set rest \<longrightarrow> cl ! j = ?cl0 ! j"
      by auto
    with True show ?thesis by (intro exI [of _ cl]) (simp add: Let_def)
  next
    case False
    define ev' where "ev' = (if elapsed ?ev + delta \<ge> delay ?ev then ?ev\<lparr>elapsed := delay ?ev\<rparr>
                             else ?ev\<lparr>elapsed := elapsed ?ev + delta\<rparr>)"
    define this' where "this' = setTimer i ev' this"
    have step: "clockLoop delta (i # rest) this = clockLoop delta rest this'"
      using False none by (simp add: Let_def this'_def ev'_def)
    have cl': "clock (scene this') = ?cl0[i := ev']"
      by (simp add: this'_def setTimer_def)
    have ev'none: "callback ev' = None" using none by (simp add: ev'_def)
    have "\<forall>k \<in> set rest. callback (clock (scene this') ! k) = None"
    proof
      fix k assume k: "k \<in> set rest"
      then have "callback (?cl0 ! k) = None" using Cons.prems by simp
      then show "callback (clock (scene this') ! k) = None"
        unfolding cl' using ev'none
        by (cases "k = i"; cases "i < length ?cl0") (simp_all add: list_update_beyond)
    qed
    from Cons.IH [OF this] obtain cl where cl:
      "clockLoop delta rest this' = this'\<lparr>scene := (scene this')\<lparr>clock := cl\<rparr>\<rparr>"
      "length cl = length (clock (scene this'))"
      "\<forall>j. j \<notin> set rest \<longrightarrow> cl ! j = clock (scene this') ! j"
      by auto
    have a: "this'\<lparr>scene := (scene this')\<lparr>clock := cl\<rparr>\<rparr> = this\<lparr>scene := (scene this)\<lparr>clock := cl\<rparr>\<rparr>"
      by (simp add: this'_def setTimer_def)
    have b: "length cl = length ?cl0" using cl(2) cl' by simp
    have c: "\<forall>j. j \<notin> set (i # rest) \<longrightarrow> cl ! j = ?cl0 ! j"
      using cl(3) cl' by simp
    show ?thesis
      unfolding step cl(1) a using b c by blast
  qed
qed


lemma startNextWave_fresh_clock:
  assumes "\<not> waveInProgress this0" "clock (scene this0) = []" "spawnTimers this0 = []"
  shows "spawnTimers (snd (startNextWave gameSpeed this0))
           = [0..<length (fst (plannedComposition this0))]"
    and "length (clock (scene (snd (startNextWave gameSpeed this0))))
           = Suc (length (fst (plannedComposition this0)))"
    and "clock (scene (snd (startNextWave gameSpeed this0))) ! length (fst (plannedComposition this0))
           = markerTimer (plannedScaling this0) gameSpeed (length (fst (plannedComposition this0)))"
  using assms(2,3)
  by (simp_all add: startNextWave_spawnTimers [OF assms(1)] startNextWave_clock [OF assms(1)]
      nth_append)

lemma untracked_marker:
  assumes st: "spawnTimers s = [0..<n]"
    and len: "length (clock (scene s)) = Suc n"
    and m: "clock (scene s) ! n = M"
  shows "last (clock (scene s)) = M"
    and "length (clock (scene s)) - 1 \<notin> set (spawnTimers s)"
    and "last (clock (scene (pauseSpawning s))) = M"
    and "last (clock (scene (resumeSpawning s))) = M"
    and "last (clock (scene (clear s))) = M"
proof -
  have ne: "clock (scene s) \<noteq> []" using len by auto
  show "last (clock (scene s)) = M"
    using m len by (simp add: last_conv_nth [OF ne])
  show "length (clock (scene s)) - 1 \<notin> set (spawnTimers s)"
    by (simp add: st len)
  have out: "n \<notin> set (spawnTimers s)" by (simp add: st)
  have "clock (scene (pauseSpawning s)) ! n = M"
    using fold_setPaused_other [OF out, of True "scene s"] m by (simp add: pauseSpawning_def)
  moreover have "length (clock (scene (pauseSpawning s))) = Suc n"
    by (simp add: pauseSpawning_def fold_setPaused_length len)
  ultimately show "last (clock (scene (pauseSpawning s))) = M"
    by (metis diff_Suc_1 last_conv_nth length_0_conv nat.distinct(1))
  have "clock (scene (resumeSpawning s)) ! n = M"
    using fold_setPaused_other [OF out, of False "scene s"] m by (simp add: resumeSpawning_def)
  moreover have "length (clock (scene (resumeSpawning s))) = Suc n"
    by (simp add: resumeSpawning_def fold_setPaused_length len)
  ultimately show "last (clock (scene (resumeSpawning s))) = M"
    by (metis diff_Suc_1 last_conv_nth length_0_conv nat.distinct(1))
  have "clock (scene (clear s)) ! n = M"
    using fold_destroyTimer_other [OF out, of "scene s"] m by (simp add: clear_def)
  moreover have "length (clock (scene (clear s))) = Suc n"
    by (simp add: clear_def fold_destroyTimer_length len)
  ultimately show "last (clock (scene (clear s))) = M"
    by (metis diff_Suc_1 last_conv_nth length_0_conv nat.distinct(1))
qed

lemma marker_fires_after_clear:
  assumes st: "spawnTimers s = [0..<n]"
    and len: "length (clock (scene s)) = Suc n"
    and m: "clock (scene s) ! n = M"
    and M: "callback M = Some SpawningFinishedCallback" "\<not> paused M" "\<not> hasDispatched M"
      "delay M \<le> elapsed M + delta"
  shows "hasDispatched (last (clock (scene (clockUpdate delta (clear s)))))"
    and "\<not> isSpawning (clockUpdate delta (clear s))"
proof -
  let ?c = "clear s"
  have lenc: "length (clock (scene ?c)) = Suc n"
    by (simp add: clear_def fold_destroyTimer_length len)
  have out: "n \<notin> set (spawnTimers s)" by (simp add: st)
  have mc: "clock (scene ?c) ! n = M"
    using fold_destroyTimer_other [OF out, of "scene s"] m by (simp add: clear_def)
  have dead: "\<forall>i \<in> set [0..<n]. callback (clock (scene ?c) ! i) = None"
  proof
    fix i assume "i \<in> set [0..<n]"
    then have "i \<in> set (spawnTimers s)" "i < length (clock (scene s))"
      by (simp_all add: st len)
    then show "callback (clock (scene ?c) ! i) = None"
      by (simp add: clear_def fold_destroyTimer_destroyed)
  qed
  from clockLoop_inert [OF dead, of delta] obtain cl where cl:
    "clockLoop delta [0..<n] ?c = ?c\<lparr>scene := (scene ?c)\<lparr>clock := cl\<rparr>\<rparr>"
    "length cl = length (clock (scene ?c))"
    "\<forall>j. j \<notin> set [0..<n] \<longrightarrow> cl ! j = clock (scene ?c) ! j"
    by blast
  have cln: "cl ! n = M" using cl(3) mc by simp
  have lcl: "length cl = Suc n" using cl(2) lenc by simp
  have "clockUpdate delta ?c = clockLoop delta [n] (clockLoop delta [0..<n] ?c)"
    unfolding clockUpdate_def lenc by (simp add: clockLoop_append)
  also have "\<dots> = runCallback SpawningFinishedCallback
       (setTimer n (M\<lparr>elapsed := delay M, hasDispatched := True\<rparr>)
          (?c\<lparr>scene := (scene ?c)\<lparr>clock := cl\<rparr>\<rparr>))"
    unfolding cl(1) using M cln by (simp add: Let_def)
  finally have upd: "clockUpdate delta ?c = runCallback SpawningFinishedCallback
       (setTimer n (M\<lparr>elapsed := delay M, hasDispatched := True\<rparr>)
          (?c\<lparr>scene := (scene ?c)\<lparr>clock := cl\<rparr>\<rparr>))" .
  have "clock (scene (clockUpdate delta ?c)) = cl[n := M\<lparr>elapsed := delay M, hasDispatched := True\<rparr>]"
    unfolding upd by (simp add: runCallback_def setTimer_def)
  moreover have "last (cl[n := M\<lparr>elapsed := delay M, hasDispatched := True\<rparr>])
      = M\<lparr>elapsed := delay M, hasDispatched := True\<rparr>"
    using lcl by (metis last_list_update length_0_conv length_Suc_conv_rev nat.distinct(1)
        diff_Suc_1 length_list_update last_conv_nth nth_list_update_eq lessI)
  ultimately show "hasDispatched (last (clock (scene (clockUpdate delta (clear s)))))"
    by simp
  show "\<not> isSpawning (clockUpdate delta (clear s))"
    unfolding upd by (simp add: runCallback_def setTimer_def)
qed


lemma setPaused_length: "length (clock (setPaused b t sc)) = length (clock sc)"
  by (simp add: setPaused_def)

lemma setPaused_hasDispatched:
  "hasDispatched (clock (setPaused b t sc) ! i) = hasDispatched (clock sc ! i)"
proof (cases "i = t \<and> t < length (clock sc)")
  case True
  then show ?thesis by (simp add: setPaused_def)
next
  case False
  then show ?thesis by (auto simp: setPaused_def list_update_beyond)
qed

lemma setPaused_paused:
  "t < length (clock sc) \<Longrightarrow> \<not> hasDispatched (clock sc ! t)
     \<Longrightarrow> paused (clock (setPaused True t sc) ! t)"
  by (simp add: setPaused_def)

lemmas setPaused_simps = setPaused_length setPaused_hasDispatched setPaused_paused

lemma fold_setPaused_paused:
  "i \<in> set ts \<Longrightarrow> i < length (clock sc) \<Longrightarrow> \<not> hasDispatched (clock sc ! i)
     \<Longrightarrow> paused (clock (fold (setPaused True) ts sc) ! i)"
proof (induction ts arbitrary: sc)
  case Nil
  then show ?case by simp
next
  case (Cons t ts)
  show ?case
  proof (cases "i \<in> set ts")
    case True
    then show ?thesis
      using Cons.IH [of "setPaused True t sc"] Cons.prems by (simp add: setPaused_simps)
  next
    case False
    with Cons.prems have it: "i = t" by simp
    have "clock (fold (setPaused True) ts (setPaused True t sc)) ! i
        = clock (setPaused True t sc) ! i"
      using False by (rule fold_setPaused_other)
    then show ?thesis
      using it Cons.prems by (simp add: setPaused_simps)
  qed
qed

lemma fresh_facts:
  "\<not> waveInProgress (freshSystem zeroSupply)"
  "clock (scene (freshSystem zeroSupply)) = []"
  "spawnTimers (freshSystem zeroSupply) = []"
  "currentWave (freshSystem zeroSupply) = 0"
  "enemyCountMultiplier (freshSystem zeroSupply) = 1"
  by (simp_all add: freshSystem_def new_WaveSystemV2_def battleConfig_def orElse_def)

lemma fresh_interval: "spawnInterval (plannedScaling (freshSystem zeroSupply)) = 809"
  by (simp add: plannedScaling_def plannedTheme_def plannedBossWave_def enteredWave_def
      getWaveScaling_def getWaveTheme_def EARLY_WAVE_THEMES_def mkTheme_def Let_def
      round_half_up_def fresh_facts)

lemma fresh_count:
  "6 \<le> enemyCount (plannedScaling (freshSystem zeroSupply))"
  "enemyCount (plannedScaling (freshSystem zeroSupply)) \<le> 9"
proof -
  have l0: "0 \<le> ln (2 :: real) * 3" by simp
  have l1: "ln (2 :: real) < 1" by (rule ln_2_less_1)
  have e: "enemyCount (plannedScaling (freshSystem zeroSupply))
      = \<lfloor>(5 + 1.5 + ln 2 * 3 :: real)\<rfloor>"
    unfolding planned_enemyCount by (simp add: fresh_facts)
  have "(of_int 6 :: real) \<le> 5 + 1.5 + ln 2 * 3" using l0 by linarith
  then have "6 \<le> \<lfloor>(5 + 1.5 + ln 2 * 3 :: real)\<rfloor>"
    by (rule iffD2 [OF le_floor_iff])
  then show "6 \<le> enemyCount (plannedScaling (freshSystem zeroSupply))"
    unfolding e .
  have "5 + 1.5 + ln 2 * 3 < (of_int 10 :: real)" using l1 by linarith
  then have "\<lfloor>(5 + 1.5 + ln 2 * 3 :: real)\<rfloor> < 10"
    by (rule iffD2 [OF floor_less_iff])
  moreover have "k < 10 \<Longrightarrow> k \<le> 9" for k :: int by simp
  ultimately have "\<lfloor>(5 + 1.5 + ln 2 * 3 :: real)\<rfloor> \<le> 9" by blast
  then show "enemyCount (plannedScaling (freshSystem zeroSupply)) \<le> 9"
    unfolding e .
qed

lemma fresh_length:
  "6 \<le> length (fst (plannedComposition (freshSystem zeroSupply)))"
  "length (fst (plannedComposition (freshSystem zeroSupply))) \<le> 9"
proof -
  have "length (fst (plannedComposition (freshSystem zeroSupply)))
      = nat (enemyCount (plannedScaling (freshSystem zeroSupply)))"
    unfolding plannedComposition_def
    by (rule generateWaveComposition_length) (use fresh_count(1) in simp)
  then show "6 \<le> length (fst (plannedComposition (freshSystem zeroSupply)))"
    "length (fst (plannedComposition (freshSystem zeroSupply))) \<le> 9"
    using fresh_count by simp_all
qed


lemma startNextWave_fresh_spawn_timers:
  assumes "\<not> waveInProgress this0" "clock (scene this0) = []"
    and "i < length (fst (plannedComposition this0))"
  shows "\<not> hasDispatched (clock (scene (snd (startNextWave gameSpeed this0))) ! i)"
  using assms(2,3)
  by (simp add: startNextWave_clock [OF assms(1)] nth_append spawnTimer_def split_def)

text \<open>
  Claim C6. \<open>startNextWave\<close> pushes every spawn timer onto \<open>spawnTimers\<close> but not the
  timer of the completion marker, and \<open>pauseSpawning\<close>, \<open>resumeSpawning\<close> and \<open>clear\<close>
  only walk \<open>spawnTimers\<close>. After the first \<open>startNextWave(1)\<close> of a new instance the
  marker is the last timer of the scene clock: its index is not in \<open>spawnTimers\<close>;
  \<open>pauseSpawning\<close> pauses the first spawn timer but leaves the marker running;
  \<open>clear\<close> destroys the first spawn timer but leaves the marker's callback in place,
  and ten seconds later the clock dispatches it.
\<close>

theorem completion_marker_untracked:
  "callback (last (clock (scene wave1Started))) = Some SpawningFinishedCallback
   \<and> length (clock (scene wave1Started)) - 1 \<notin> set (spawnTimers wave1Started)
   \<and> paused (hd (clock (scene (pauseSpawning wave1Started))))
   \<and> \<not> paused (last (clock (scene (pauseSpawning wave1Started))))
   \<and> callback (hd (clock (scene (clear wave1Started)))) = None
   \<and> callback (last (clock (scene (clear wave1Started)))) = Some SpawningFinishedCallback
   \<and> hasDispatched (last (clock (scene (clockUpdate 10000 (clear wave1Started)))))"
proof -
  define n where "n = length (fst (plannedComposition (freshSystem zeroSupply)))"
  define M where "M = markerTimer (plannedScaling (freshSystem zeroSupply)) 1 n"
  note fc0 = startNextWave_fresh_clock [OF fresh_facts(1,2,3), of 1,
      folded wave1Started_def n_def]
  note fc = fc0(1,2) fc0(3) [folded M_def]
  have n: "6 \<le> n" "n \<le> 9" using fresh_length by (simp_all add: n_def)
  have M: "callback M = Some SpawningFinishedCallback" "\<not> paused M" "\<not> hasDispatched M"
    by (simp_all add: M_def markerTimer_def)
  have "real n \<le> 9" using n(2) by simp
  then have "(real n - 1) * 809 \<le> 8 * 809"
    by (intro mult_right_mono) simp_all
  then have "(real n - 1) * 809 + 500 \<le> 10000" by simp
  then have due: "delay M \<le> elapsed M + 10000"
    by (simp add: M_def markerTimer_def fresh_interval)
  note um = untracked_marker [OF fc]
  have zero: "0 \<in> set (spawnTimers wave1Started)" "0 < length (clock (scene wave1Started))"
    using n(1) by (simp_all add: fc)
  have nd: "\<not> hasDispatched (clock (scene wave1Started) ! 0)"
    unfolding wave1Started_def
    by (rule startNextWave_fresh_spawn_timers [OF fresh_facts(1,2)])
      (use n(1) in \<open>auto simp: n_def\<close>)
  have "paused (clock (scene (pauseSpawning wave1Started)) ! 0)"
    unfolding pauseSpawning_def using fold_setPaused_paused [OF zero nd] by simp
  moreover have "clock (scene (pauseSpawning wave1Started)) \<noteq> []"
    using fold_setPaused_length [of True "spawnTimers wave1Started" "scene wave1Started"] zero(2)
    by (auto simp: pauseSpawning_def)
  ultimately have p: "paused (hd (clock (scene (pauseSpawning wave1Started))))"
    by (simp add: hd_conv_nth)
  have "callback (clock (scene (clear wave1Started)) ! 0) = None"
    unfolding clear_def using fold_destroyTimer_destroyed [OF zero] by simp
  moreover have "clock (scene (clear wave1Started)) \<noteq> []"
    using fold_destroyTimer_length [of "spawnTimers wave1Started" "scene wave1Started"] zero(2)
    by (auto simp: clear_def)
  ultimately have d: "callback (hd (clock (scene (clear wave1Started)))) = None"
    by (simp add: hd_conv_nth)
  have f: "hasDispatched (last (clock (scene (clockUpdate 10000 (clear wave1Started)))))"
    by (rule marker_fires_after_clear(1) [OF fc M due])
  show ?thesis
    using um M p d f by simp
qed

end
